theory Spec2Isabelle
  imports Main "HOL-Library.Word"
begin

unbundle bit_operations_syntax

section \<open>Strings of the runtime\<close>

text \<open>
  An ECMAScript string is a sequence of 16-bit code units.  String literals of the
  source are ASCII and are written with \<open>lit\<close>.
\<close>

type_synonym code_unit = "16 word"
type_synonym jstring = "code_unit list"

definition lit :: "string \<Rightarrow> jstring" where
  "lit s = map (\<lambda>c. of_nat (of_char c)) s"

definition is_lead :: "code_unit \<Rightarrow> bool" where
  "is_lead c = (0xD800 \<le> c \<and> c \<le> 0xDBFF)"

definition is_trail :: "code_unit \<Rightarrow> bool" where
  "is_trail c = (0xDC00 \<le> c \<and> c \<le> 0xDFFF)"

text \<open>
  A scalar value string has no unpaired surrogate.  The values held by
  \<open>URLSearchParams\<close> are such strings (they come out of a UTF-8 decoder).
\<close>

fun scalar_value_string :: "jstring \<Rightarrow> bool" where
  "scalar_value_string [] = True"
| "scalar_value_string (c # cs) =
     (if is_lead c then
        (case cs of [] \<Rightarrow> False | d # ds \<Rightarrow> is_trail d \<and> scalar_value_string ds)
      else if is_trail c then False
      else scalar_value_string cs)"

fun intercalate :: "'a list \<Rightarrow> 'a list list \<Rightarrow> 'a list" where
  "intercalate sep [] = []"
| "intercalate sep [x] = x"
| "intercalate sep (x # y # ys) = x @ sep @ intercalate sep (y # ys)"

section \<open>Values, exceptions and the runtime\<close>

text \<open>
  The value that \<open>response.json()\<close> resolves to.  A number is the bit pattern of an
  IEEE 754 double.  An object lists its own properties in the order the runtime
  enumerates them; \<open>map_of\<close> reads a property.  The value \<open>undefined\<close>, which only a
  property read produces, is \<open>None\<close> of \<open>json option\<close>.
\<close>

datatype json =
    JNull
  | JBool bool
  | JNum "64 word"
  | JStr jstring
  | JArr "json list"
  | JObj "(jstring \<times> json) list"

text \<open>
  What can be thrown: \<open>URIError\<close> by \<open>encodeURIComponent\<close>; \<open>TypeError\<close> by a property
  read on \<open>null\<close> or \<open>undefined\<close> (the argument names the property) or by a failed
  conversion to a primitive; \<open>Rejected\<close> is the rejection of \<open>fetch\<close> or of
  \<open>response.json()\<close>, with the detail text of the underlying error.
\<close>

datatype exn = URIError | TypeError jstring | Rejected jstring

text \<open>
  Two conversions between numbers and strings are the runtime's and are not computed
  here: \<open>Number::toString\<close> on a finite number, and \<open>ToNumber\<close> on a string, an
  array or an object (\<open>ToPrimitive\<close> with hint number, then \<open>StringToNumber\<close>; it
  throws when no conversion method is callable).
\<close>

record runtime =
  number_to_string :: "64 word \<Rightarrow> jstring"
  to_number :: "json \<Rightarrow> exn + 64 word"

definition double_is_finite :: "64 word \<Rightarrow> bool" where
  "double_is_finite w = (w AND 0x7FF0000000000000 \<noteq> 0x7FF0000000000000)"

definition double_is_nan :: "64 word \<Rightarrow> bool" where
  "double_is_nan w = (\<not> double_is_finite w \<and> w AND 0x000FFFFFFFFFFFFF \<noteq> 0)"

definition double_is_zero :: "64 word \<Rightarrow> bool" where
  "double_is_zero w = (w AND 0x7FFFFFFFFFFFFFFF = 0)"

definition double_gt_zero :: "64 word \<Rightarrow> bool" where
  "double_gt_zero w =
     (\<not> double_is_nan w \<and> \<not> double_is_zero w \<and> w AND 0x8000000000000000 = 0)"

text \<open>\<open>ToBoolean\<close>: what \<open>!x\<close>, \<open>x && y\<close> and \<open>x || y\<close> test.\<close>

fun truthy :: "json option \<Rightarrow> bool" where
  "truthy None = False"
| "truthy (Some JNull) = False"
| "truthy (Some (JBool b)) = b"
| "truthy (Some (JNum n)) = (\<not> double_is_zero n \<and> \<not> double_is_nan n)"
| "truthy (Some (JStr s)) = (s \<noteq> [])"
| "truthy (Some (JArr xs)) = True"
| "truthy (Some (JObj kvs)) = True"

definition js_or :: "json option \<Rightarrow> json option \<Rightarrow> json option" where
  "js_or a b = (if truthy a then a else b)"

text \<open>
  Reading a property by name.  The names the handler reads (\<open>pageProps\<close>, \<open>data\<close>,
  \<open>title\<close>, \<open>prompt\<close>, \<open>user\<close>, \<open>displayName\<close>, \<open>url\<close>) are on no built-in prototype,
  so only an object with that own property yields a value; \<open>length\<close> and the index
  \<open>0\<close> are read by the two functions after it.
\<close>

fun own_prop :: "json \<Rightarrow> jstring \<Rightarrow> json option" where
  "own_prop (JObj kvs) k = map_of kvs k"
| "own_prop v k = None"

fun get_named :: "json option \<Rightarrow> jstring \<Rightarrow> exn + json option" where
  "get_named None k = Inl (TypeError k)"
| "get_named (Some JNull) k = Inl (TypeError k)"
| "get_named (Some v) k = Inr (own_prop v k)"

text \<open>\<open>v > 0\<close> for a property value \<open>v\<close>: both sides are converted to numbers.\<close>

fun gt_zero :: "runtime \<Rightarrow> json option \<Rightarrow> exn + bool" where
  "gt_zero rt None = Inr False"
| "gt_zero rt (Some JNull) = Inr False"
| "gt_zero rt (Some (JBool b)) = Inr b"
| "gt_zero rt (Some (JNum n)) = Inr (double_gt_zero n)"
| "gt_zero rt (Some v) =
     (case to_number rt v of Inl e \<Rightarrow> Inl e | Inr n \<Rightarrow> Inr (double_gt_zero n))"

text \<open>
  \<open>data.length > 0\<close>: an array has as many elements, a string as many code units; an
  object has the property it was given, if any; a number or a boolean has none.
\<close>

fun length_gt_zero :: "runtime \<Rightarrow> json option \<Rightarrow> exn + bool" where
  "length_gt_zero rt None = Inl (TypeError (lit ''length''))"
| "length_gt_zero rt (Some JNull) = Inl (TypeError (lit ''length''))"
| "length_gt_zero rt (Some (JArr xs)) = Inr (xs \<noteq> [])"
| "length_gt_zero rt (Some (JStr s)) = Inr (s \<noteq> [])"
| "length_gt_zero rt (Some (JObj kvs)) = gt_zero rt (map_of kvs (lit ''length''))"
| "length_gt_zero rt (Some v) = gt_zero rt None"

text \<open>\<open>data[0]\<close>.\<close>

fun index0 :: "json option \<Rightarrow> exn + json option" where
  "index0 None = Inl (TypeError (lit ''0''))"
| "index0 (Some JNull) = Inl (TypeError (lit ''0''))"
| "index0 (Some (JArr xs)) = Inr (case xs of [] \<Rightarrow> None | x # _ \<Rightarrow> Some x)"
| "index0 (Some (JStr s)) = Inr (case s of [] \<Rightarrow> None | c # _ \<Rightarrow> Some (JStr [c]))"
| "index0 (Some (JObj kvs)) = Inr (map_of kvs (lit ''0''))"
| "index0 (Some v) = Inr None"

section \<open>\<open>encodeURIComponent\<close>\<close>

definition uri_unreserved :: "code_unit \<Rightarrow> bool" where
  "uri_unreserved c =
     ((0x41 \<le> c \<and> c \<le> 0x5A) \<or> (0x61 \<le> c \<and> c \<le> 0x7A) \<or> (0x30 \<le> c \<and> c \<le> 0x39)
      \<or> c \<in> set (lit ''-_.!~*'' @ [0x27] @ lit ''()''))"

definition upper_hex :: "nat \<Rightarrow> code_unit" where
  "upper_hex n = (if n < 10 then of_nat (0x30 + n) else of_nat (0x37 + n))"

definition percent_octet :: "nat \<Rightarrow> jstring" where
  "percent_octet b = [0x25, upper_hex (b div 16), upper_hex (b mod 16)]"

definition utf8_encode :: "nat \<Rightarrow> nat list" where
  "utf8_encode cp =
     (if cp < 0x80 then [cp]
      else if cp < 0x800 then [0xC0 + cp div 64, 0x80 + cp mod 64]
      else if cp < 0x10000 then
        [0xE0 + cp div 4096, 0x80 + (cp div 64) mod 64, 0x80 + cp mod 64]
      else
        [0xF0 + cp div 262144, 0x80 + (cp div 4096) mod 64,
         0x80 + (cp div 64) mod 64, 0x80 + cp mod 64])"

definition percent_code_point :: "nat \<Rightarrow> jstring" where
  "percent_code_point cp = concat (map percent_octet (utf8_encode cp))"

definition pair_code_point :: "code_unit \<Rightarrow> code_unit \<Rightarrow> nat" where
  "pair_code_point c d = 0x10000 + (unat c - 0xD800) * 0x400 + (unat d - 0xDC00)"

text \<open>
  The loop of \<open>Encode\<close>: an unreserved code unit is kept; any other code point is
  written as the percent-escapes of its UTF-8 octets; an unpaired surrogate throws.
\<close>

fun encodeURIComponent :: "jstring \<Rightarrow> exn + jstring" where
  "encodeURIComponent [] = Inr []"
| "encodeURIComponent (c # cs) =
     (if uri_unreserved c then
        (case encodeURIComponent cs of Inl e \<Rightarrow> Inl e | Inr r \<Rightarrow> Inr (c # r))
      else if is_lead c then
        (case cs of
           [] \<Rightarrow> Inl URIError
         | d # ds \<Rightarrow>
             if is_trail d then
               (case encodeURIComponent ds of
                  Inl e \<Rightarrow> Inl e
                | Inr r \<Rightarrow> Inr (percent_code_point (pair_code_point c d) @ r))
             else Inl URIError)
      else if is_trail c then Inl URIError
      else
        (case encodeURIComponent cs of
           Inl e \<Rightarrow> Inl e
         | Inr r \<Rightarrow> Inr (percent_code_point (unat c) @ r)))"

section \<open>\<open>JSON.stringify\<close>\<close>

definition lower_hex :: "nat \<Rightarrow> code_unit" where
  "lower_hex n = (if n < 10 then of_nat (0x30 + n) else of_nat (0x57 + n))"

definition unicode_escape :: "code_unit \<Rightarrow> jstring" where
  "unicode_escape c =
     [0x5C, 0x75, lower_hex (unat c div 4096), lower_hex ((unat c div 256) mod 16),
      lower_hex ((unat c div 16) mod 16), lower_hex (unat c mod 16)]"

definition escape_unit :: "code_unit \<Rightarrow> jstring" where
  "escape_unit c =
     (if c = 0x08 then [0x5C, 0x62]
      else if c = 0x09 then [0x5C, 0x74]
      else if c = 0x0A then [0x5C, 0x6E]
      else if c = 0x0C then [0x5C, 0x66]
      else if c = 0x0D then [0x5C, 0x72]
      else if c = 0x22 then [0x5C, 0x22]
      else if c = 0x5C then [0x5C, 0x5C]
      else if c < 0x20 then unicode_escape c
      else [c])"

fun quote_units :: "jstring \<Rightarrow> jstring" where
  "quote_units [] = []"
| "quote_units (c # cs) =
     (if is_lead c then
        (case cs of
           [] \<Rightarrow> unicode_escape c
         | d # ds \<Rightarrow>
             if is_trail d then c # d # quote_units ds
             else unicode_escape c @ quote_units (d # ds))
      else if is_trail c then unicode_escape c @ quote_units cs
      else escape_unit c @ quote_units cs)"

definition QuoteJSONString :: "jstring \<Rightarrow> jstring" where
  "QuoteJSONString s = [0x22] @ quote_units s @ [0x22]"

fun JSON_stringify :: "runtime \<Rightarrow> json \<Rightarrow> jstring"
  and stringify_elements :: "runtime \<Rightarrow> json list \<Rightarrow> jstring list"
  and stringify_members :: "runtime \<Rightarrow> (jstring \<times> json) list \<Rightarrow> jstring list"
where
  "JSON_stringify rt JNull = lit ''null''"
| "JSON_stringify rt (JBool b) = (if b then lit ''true'' else lit ''false'')"
| "JSON_stringify rt (JNum n) =
     (if double_is_finite n then number_to_string rt n else lit ''null'')"
| "JSON_stringify rt (JStr s) = QuoteJSONString s"
| "JSON_stringify rt (JArr xs) =
     lit ''['' @ intercalate (lit '','') (stringify_elements rt xs) @ lit '']''"
| "JSON_stringify rt (JObj kvs) =
     lit ''{'' @ intercalate (lit '','') (stringify_members rt kvs) @ lit ''}''"
| "stringify_elements rt [] = []"
| "stringify_elements rt (x # xs) = JSON_stringify rt x # stringify_elements rt xs"
| "stringify_members rt [] = []"
| "stringify_members rt ((k, v) # kvs) =
     (QuoteJSONString k @ lit '':'' @ JSON_stringify rt v) # stringify_members rt kvs"

text \<open>
  An object literal of the source may give a property the value \<open>undefined\<close>;
  serialisation leaves such a property out.
\<close>

fun defined_props :: "(jstring \<times> json option) list \<Rightarrow> (jstring \<times> json) list" where
  "defined_props [] = []"
| "defined_props ((k, None) # ps) = defined_props ps"
| "defined_props ((k, Some v) # ps) = (k, v) # defined_props ps"

definition JSON_stringify_literal :: "runtime \<Rightarrow> (jstring \<times> json option) list \<Rightarrow> jstring" where
  "JSON_stringify_literal rt ps = JSON_stringify rt (JObj (defined_props ps))"

section \<open>Requests, responses and effects\<close>

text \<open>
  A request as the handler sees it through \<open>new URL(request.url)\<close>: the path and the
  query pairs of the parsed URL, beside the method, which the handler never reads.
\<close>

record request =
  http_method :: jstring
  pathname :: jstring
  searchParams :: "(jstring \<times> jstring) list"

definition searchParams_get :: "(jstring \<times> jstring) list \<Rightarrow> jstring \<Rightarrow> jstring option" where
  "searchParams_get ps name = map_of ps name"

text \<open>
  \<open>new Response(body, init)\<close>: \<open>headers\<close> are the headers that \<open>init\<close> names.
\<close>

record response =
  status :: nat
  headers :: "(jstring \<times> jstring) list"
  body :: jstring

definition new_Response :: "jstring \<Rightarrow> nat \<Rightarrow> (jstring \<times> jstring) list \<Rightarrow> response" where
  "new_Response b s hs = \<lparr>status = s, headers = hs, body = b\<rparr>"

datatype effect = Fetch jstring | ConsoleError exn

section \<open>The handler\<close>

definition bind :: "exn + 'a \<Rightarrow> ('a \<Rightarrow> exn + 'b) \<Rightarrow> exn + 'b" where
  "bind m f = (case m of Inl e \<Rightarrow> Inl e | Inr x \<Rightarrow> f x)"

text \<open>The two endpoints: of \<open>index.ts\<close> and of its compiled copy.\<close>

definition endpoint_index_ts :: jstring where
  "endpoint_index_ts =
     lit ''https://playground.com/_next/data/DKheFsybTy-HQ-Exsbzy9/search.json?q=''"

definition endpoint_index_ts_js :: jstring where
  "endpoint_index_ts_js =
     lit ''https://playground.com/_next/data/ba0kOy0FZsenBfbBIZHrR/search.json?q=''"

definition no_results_message :: "jstring \<Rightarrow> jstring" where
  "no_results_message query =
     lit ''No results found for '' @ [0x22] @ query @ [0x22] @ lit ''.''"

definition error_body :: "runtime \<Rightarrow> jstring \<Rightarrow> jstring" where
  "error_body rt msg = JSON_stringify rt (JObj [(lit ''error'', JStr msg)])"

text \<open>
  The body of the \<open>try\<close> block.  \<open>fetched\<close> is what \<open>fetch(searchUrl)\<close> followed by
  \<open>response.json()\<close> gave: the parsed value, or the rejection.
\<close>

definition try_block :: "runtime \<Rightarrow> exn + json \<Rightarrow> jstring \<Rightarrow> exn + response" where
  "try_block rt fetched query =
     bind fetched (\<lambda>responseData.
     bind (get_named (Some responseData) (lit ''pageProps'')) (\<lambda>pageProps.
     bind (get_named pageProps (lit ''data'')) (\<lambda>data.
     bind (if truthy data then length_gt_zero rt data else Inr False) (\<lambda>nonempty.
       if nonempty then
         bind (index0 data) (\<lambda>firstResult.
         bind (get_named firstResult (lit ''title'')) (\<lambda>title.
         bind (get_named firstResult (lit ''prompt'')) (\<lambda>prompt.
         bind (get_named firstResult (lit ''user'')) (\<lambda>user.
         bind (get_named user (lit ''displayName'')) (\<lambda>displayName.
         bind (get_named firstResult (lit ''url'')) (\<lambda>url.
           Inr (new_Response
                  (JSON_stringify_literal rt
                     [(lit ''title'', js_or title (Some (JStr (lit ''N/A'')))),
                      (lit ''prompt'', prompt),
                      (lit ''user'', displayName),
                      (lit ''imageUrl'', url)])
                  200 [(lit ''Content-Type'', lit ''application/json'')])))))))
       else
         Inr (new_Response (error_body rt (no_results_message query)) 404 [])))))"

text \<open>
  The handler, given the endpoint, the runtime and the upstream (\<open>fetch\<close> maps the URL
  called to the outcome of the call).  It returns the response with the effects in
  order, or the exception that leaves the handler.
\<close>

definition handler ::
  "jstring \<Rightarrow> runtime \<Rightarrow> (jstring \<Rightarrow> exn + json) \<Rightarrow> request \<Rightarrow> exn + response \<times> effect list"
where
  "handler endpoint rt fetch req =
     (if pathname req = lit ''/search'' then
        (case searchParams_get (searchParams req) (lit ''q'') of
           None \<Rightarrow>
             Inr (new_Response (error_body rt (lit ''Please provide a search query.'')) 400 [], [])
         | Some query \<Rightarrow>
             if query = [] then
               Inr (new_Response (error_body rt (lit ''Please provide a search query.'')) 400 [], [])
             else
               bind (encodeURIComponent query) (\<lambda>encoded.
                 let searchUrl = endpoint @ encoded in
                 (case try_block rt (fetch searchUrl) query of
                    Inr r \<Rightarrow> Inr (r, [Fetch searchUrl])
                  | Inl error \<Rightarrow>
                      Inr (new_Response
                             (error_body rt
                                (lit ''Sorry, an error occurred while fetching the search results.''))
                             500 [],
                           [Fetch searchUrl, ConsoleError error]))))
      else Inr (new_Response (lit ''Not Found'') 404 [], []))"

section \<open>Notions of the specification\<close>

text \<open>
  A code unit of a percent-escape: the percent sign, a decimal digit or an upper-case
  hexadecimal letter.
\<close>

definition percent_escape_unit :: "code_unit \<Rightarrow> bool" where
  "percent_escape_unit c =
     (c = 0x25 \<or> (0x30 \<le> c \<and> c \<le> 0x39) \<or> (0x41 \<le> c \<and> c \<le> 0x46))"

text \<open>
  Reading a percent-encoded string back, written without reference to the encoder.
  \<open>percent_decode\<close> gives the octets: an ASCII code unit stands for itself and
  \<open>%XY\<close> for the octet with the hexadecimal digits \<open>X\<close> and \<open>Y\<close>.
  \<open>utf8_decode\<close> reads the octets as UTF-8 and accepts the shortest form of a scalar
  value only.  \<open>code_points\<close> are the code points of a string, a surrogate pair
  counting as the one code point it stands for.
\<close>

definition hex_value :: "code_unit \<Rightarrow> nat option" where
  "hex_value c =
     (if 0x30 \<le> c \<and> c \<le> 0x39 then Some (unat c - 0x30)
      else if 0x41 \<le> c \<and> c \<le> 0x46 then Some (unat c - 0x37)
      else if 0x61 \<le> c \<and> c \<le> 0x66 then Some (unat c - 0x57)
      else None)"

fun percent_decode :: "jstring \<Rightarrow> nat list option" where
  "percent_decode [] = Some []"
| "percent_decode (c # cs) =
     (if c = 0x25 then
        (case cs of
           h # l # rest \<Rightarrow>
             (case hex_value h of
                None \<Rightarrow> None
              | Some a \<Rightarrow>
                  (case hex_value l of
                     None \<Rightarrow> None
                   | Some b \<Rightarrow> map_option ((#) (16 * a + b)) (percent_decode rest)))
         | _ \<Rightarrow> None)
      else if c < 0x80 then map_option ((#) (unat c)) (percent_decode cs)
      else None)"

definition continuation :: "nat \<Rightarrow> bool" where
  "continuation b = (0x80 \<le> b \<and> b < 0xC0)"

fun utf8_run :: "nat \<Rightarrow> nat \<Rightarrow> nat \<Rightarrow> nat list \<Rightarrow> nat list option" where
  "utf8_run k acc lo [] = (if k = 0 then Some [] else None)"
| "utf8_run k acc lo (b # bs) =
     (if k = 0 then
        (if b < 0x80 then map_option ((#) b) (utf8_run 0 0 0 bs)
         else if 0xC0 \<le> b \<and> b < 0xE0 then utf8_run 1 (b - 0xC0) 0x80 bs
         else if 0xE0 \<le> b \<and> b < 0xF0 then utf8_run 2 (b - 0xE0) 0x800 bs
         else if 0xF0 \<le> b \<and> b < 0xF8 then utf8_run 3 (b - 0xF0) 0x10000 bs
         else None)
      else if continuation b then
        (if k = 1 then
           (if lo \<le> acc * 64 + (b - 0x80) \<and> acc * 64 + (b - 0x80) < 0x110000
               \<and> \<not> (0xD800 \<le> acc * 64 + (b - 0x80) \<and> acc * 64 + (b - 0x80) < 0xE000) then
              map_option ((#) (acc * 64 + (b - 0x80))) (utf8_run 0 0 0 bs)
            else None)
         else utf8_run (k - 1) (acc * 64 + (b - 0x80)) lo bs)
      else None)"

definition utf8_decode :: "nat list \<Rightarrow> nat list option" where
  "utf8_decode bs = utf8_run 0 0 0 bs"

fun code_points :: "jstring \<Rightarrow> nat list" where
  "code_points [] = []"
| "code_points [c] = [unat c]"
| "code_points (c # d # ds) =
     (if is_lead c \<and> is_trail d then
        (0x10000 + (unat c mod 0x400) * 0x400 + unat d mod 0x400) # code_points ds
      else unat c # code_points (d # ds))"

definition decode_query :: "jstring \<Rightarrow> nat list option" where
  "decode_query r = (case percent_decode r of None \<Rightarrow> None | Some bs \<Rightarrow> utf8_decode bs)"

text \<open>
  A request as \<open>URLSearchParams\<close> can hold it: every name and value is a scalar value
  string.
\<close>

definition scalar_value_request :: "request \<Rightarrow> bool" where
  "scalar_value_request req =
     list_all (\<lambda>(name, v). scalar_value_string name \<and> scalar_value_string v) (searchParams req)"

text \<open>
  The three shapes of a proxy response, each with its status codes: success
  \<open>{title, prompt, user, imageUrl}\<close>, not-found \<open>{error: "No results found for
  \"<query>\"."}\<close> and client/server error \<open>{error: <message>}\<close>.
\<close>

definition success_variant :: "runtime \<Rightarrow> response \<Rightarrow> bool" where
  "success_variant rt r =
     (status r = 200 \<and>
      (\<exists>title prompt user imageUrl.
         body r = JSON_stringify_literal rt
           [(lit ''title'', Some title), (lit ''prompt'', prompt),
            (lit ''user'', user), (lit ''imageUrl'', imageUrl)]))"

definition not_found_variant :: "runtime \<Rightarrow> response \<Rightarrow> bool" where
  \<open>not_found_variant rt r =
     (status r = 404 \<and>
      (\<exists>query.
         body r = JSON_stringify rt
           (JObj [(lit ''error'',
                   JStr (lit ''No results found for "'' @ query @ lit ''".''))])))\<close>

definition error_variant :: "runtime \<Rightarrow> response \<Rightarrow> bool" where
  "error_variant rt r =
     ((status r = 400 \<or> status r = 500) \<and>
      (\<exists>message. body r = JSON_stringify rt (JObj [(lit ''error'', JStr message)])))"

definition exactly_one_variant :: "runtime \<Rightarrow> response \<Rightarrow> bool" where
  "exactly_one_variant rt r =
     (success_variant rt r \<and> \<not> not_found_variant rt r \<and> \<not> error_variant rt r
      \<or> \<not> success_variant rt r \<and> not_found_variant rt r \<and> \<not> error_variant rt r
      \<or> \<not> success_variant rt r \<and> \<not> not_found_variant rt r \<and> error_variant rt r)"

section \<open>Concrete inputs\<close>

text \<open>
  Inputs for the closed examples.  No value in them holds a number, so the two
  conversions of \<open>sample_runtime\<close> are never consulted there.
\<close>

definition sample_runtime :: runtime where
  "sample_runtime = \<lparr>number_to_string = (\<lambda>n. []), to_number = (\<lambda>v. Inr 0)\<rparr>"

definition upstream_gives :: "exn + json \<Rightarrow> jstring \<Rightarrow> exn + json" where
  "upstream_gives outcome searchUrl = outcome"

definition search_request :: "jstring \<Rightarrow> request" where
  "search_request q =
     \<lparr>http_method = lit ''GET'', pathname = lit ''/search'', searchParams = [(lit ''q'', q)]\<rparr>"

definition other_request :: request where
  "other_request =
     \<lparr>http_method = lit ''POST'', pathname = lit ''/search/'', searchParams = [(lit ''q'', lit ''foo'')]\<rparr>"

definition bare_request :: request where
  "bare_request = \<lparr>http_method = lit ''GET'', pathname = lit ''/search'', searchParams = []\<rparr>"

definition page_of :: "json list \<Rightarrow> json" where
  "page_of results = JObj [(lit ''pageProps'', JObj [(lit ''data'', JArr results)])]"

definition sample_result :: json where
  "sample_result =
     JObj [(lit ''title'', JStr (lit ''T'')), (lit ''prompt'', JStr (lit ''P'')),
           (lit ''user'', JObj [(lit ''displayName'', JStr (lit ''U''))]),
           (lit ''url'', JStr (lit ''http://x''))]"

definition untitled_result :: json where
  "untitled_result =
     JObj [(lit ''title'', JStr []), (lit ''prompt'', JStr (lit ''P'')),
           (lit ''user'', JObj [(lit ''displayName'', JStr (lit ''U''))]),
           (lit ''url'', JStr (lit ''http://x''))]"

definition result_without_user :: json where
  "result_without_user =
     JObj [(lit ''title'', JStr (lit ''T'')), (lit ''prompt'', JStr (lit ''P'')),
           (lit ''url'', JStr (lit ''http://x''))]"

definition result_without_prompt :: json where
  "result_without_prompt =
     JObj [(lit ''title'', JStr (lit ''T'')),
           (lit ''user'', JObj [(lit ''displayName'', JStr (lit ''U''))]),
           (lit ''url'', JStr (lit ''http://x''))]"

definition result_without_url :: json where
  "result_without_url =
     JObj [(lit ''title'', JStr (lit ''T'')), (lit ''prompt'', JStr (lit ''P'')),
           (lit ''user'', JObj [(lit ''displayName'', JStr (lit ''U''))])]"

section \<open>Facts about the serialised error bodies\<close>

lemma error_body_missing_query:
  \<open>error_body rt (lit ''Please provide a search query.'')
     = lit ''{"error":"Please provide a search query."}''\<close>
  by (simp add: error_body_def QuoteJSONString_def escape_unit_def is_lead_def is_trail_def
      lit_def)

lemma error_body_fault:
  \<open>error_body rt (lit ''Sorry, an error occurred while fetching the search results.'')
     = lit ''{"error":"Sorry, an error occurred while fetching the search results."}''\<close>
  by (simp add: error_body_def QuoteJSONString_def escape_unit_def is_lead_def is_trail_def
      lit_def)

lemma no_results_message_lit:
  \<open>no_results_message query = lit ''No results found for "'' @ query @ lit ''".''\<close>
  by (simp add: no_results_message_def lit_def)

lemmas string_eval =
  lit_def QuoteJSONString_def escape_unit_def is_lead_def is_trail_def uri_unreserved_def
  percent_code_point_def utf8_encode_def percent_octet_def upper_hex_def

lemmas handler_eval =
  handler_def try_block_def bind_def new_Response_def error_body_def no_results_message_def
  JSON_stringify_literal_def js_or_def searchParams_get_def search_request_def
  upstream_gives_def page_of_def endpoint_index_ts_def

section \<open>Facts about \<open>encodeURIComponent\<close>\<close>

lemma upper_hex_table: "\<forall>n \<in> set [0..<16]. percent_escape_unit (upper_hex n)"
  by code_simp

lemma upper_hex_escape: "n < 16 \<Longrightarrow> percent_escape_unit (upper_hex n)"
  using upper_hex_table by simp

lemma percent_octet_escape:
  "b < 256 \<Longrightarrow> \<forall>c \<in> set (percent_octet b). percent_escape_unit c"
proof -
  assume b: "b < 256"
  then have "b div 16 < 16" and "b mod 16 < 16" by simp_all
  then have "percent_escape_unit (upper_hex (b div 16))"
    and "percent_escape_unit (upper_hex (b mod 16))"
    by (simp_all add: upper_hex_escape)
  moreover have "percent_escape_unit 0x25" by (simp add: percent_escape_unit_def)
  ultimately show ?thesis by (simp add: percent_octet_def)
qed

lemma utf8_encode_octets: "cp < 0x110000 \<Longrightarrow> \<forall>b \<in> set (utf8_encode cp). b < 256"
  by (auto simp: utf8_encode_def)

lemma percent_code_point_escape:
  "cp < 0x110000 \<Longrightarrow> \<forall>c \<in> set (percent_code_point cp). percent_escape_unit c"
proof -
  assume "cp < 0x110000"
  then have "\<forall>b \<in> set (utf8_encode cp). b < 256"
    by (rule utf8_encode_octets)
  then have "\<forall>b \<in> set (utf8_encode cp). \<forall>c \<in> set (percent_octet b). percent_escape_unit c"
    using percent_octet_escape by blast
  then show ?thesis
    by (simp add: percent_code_point_def)
qed

lemma unit_code_point_bound: "unat (c :: code_unit) < 0x110000"
proof -
  have "unat c < 2 ^ LENGTH(16)" by (rule unsigned_less)
  then show ?thesis by simp
qed

lemma pair_code_point_bound:
  "is_lead c \<Longrightarrow> is_trail d \<Longrightarrow> pair_code_point c d < 0x110000"
proof -
  assume "is_lead c" and "is_trail d"
  then have "unat c \<le> 0xDBFF" and "unat d \<le> 0xDFFF"
    by (simp_all add: is_lead_def is_trail_def word_le_nat_alt)
  then show ?thesis
    by (simp add: pair_code_point_def)
qed

lemma unreserved_le: "uri_unreserved c \<Longrightarrow> c \<le> 0x7E"
  unfolding uri_unreserved_def lit_def
  by (auto simp: word_le_nat_alt)

lemma unreserved_not_surrogate: "uri_unreserved c \<Longrightarrow> \<not> is_lead c \<and> \<not> is_trail c"
proof -
  assume "uri_unreserved c"
  then have "unat c \<le> 0x7E"
    using unreserved_le [of c] by (simp add: word_le_nat_alt)
  then show ?thesis
    by (simp add: is_lead_def is_trail_def word_le_nat_alt)
qed

text \<open>A scalar value string is always encoded; any other string throws.\<close>

lemma encodeURIComponent_total:
  "scalar_value_string s \<Longrightarrow> \<exists>r. encodeURIComponent s = Inr r"
proof (induction s rule: scalar_value_string.induct)
  case 1
  then show ?case by simp
next
  case (2 c cs)
  show ?case
  proof (cases "is_lead c")
    case lead: True
    then have unres: "\<not> uri_unreserved c"
      using unreserved_not_surrogate by blast
    from "2.prems" lead obtain d ds
      where cs: "cs = d # ds" and d: "is_trail d" and ds: "scalar_value_string ds"
      by (auto split: list.splits)
    from "2.IH"(1) [OF lead cs ds] obtain r where "encodeURIComponent ds = Inr r"
      by blast
    with lead unres cs d show ?thesis by simp
  next
    case nolead: False
    with "2.prems" have notrail: "\<not> is_trail c" and rest: "scalar_value_string cs"
      by (simp_all split: if_splits)
    from "2.IH"(2) [OF nolead notrail rest] obtain r where "encodeURIComponent cs = Inr r"
      by blast
    with nolead notrail show ?thesis by simp
  qed
qed

lemma encodeURIComponent_throws:
  "\<not> scalar_value_string s \<Longrightarrow> encodeURIComponent s = Inl URIError"
proof (induction s rule: scalar_value_string.induct)
  case 1
  then show ?case by simp
next
  case (2 c cs)
  show ?case
  proof (cases "is_lead c")
    case lead: True
    then have unres: "\<not> uri_unreserved c"
      using unreserved_not_surrogate by blast
    show ?thesis
    proof (cases cs)
      case Nil
      with lead unres show ?thesis by simp
    next
      case (Cons d ds)
      show ?thesis
      proof (cases "is_trail d")
        case True
        with "2.prems" lead Cons have "\<not> scalar_value_string ds" by simp
        from "2.IH"(1) [OF lead Cons this] lead unres Cons True show ?thesis by simp
      next
        case False
        with lead unres Cons show ?thesis by simp
      qed
    qed
  next
    case nolead: False
    show ?thesis
    proof (cases "is_trail c")
      case True
      then have "\<not> uri_unreserved c"
        using unreserved_not_surrogate by blast
      with nolead True show ?thesis by simp
    next
      case False
      with "2.prems" nolead have "\<not> scalar_value_string cs" by simp
      from "2.IH"(2) [OF nolead False this] nolead False show ?thesis by simp
    qed
  qed
qed

text \<open>The encoded string holds unreserved code units and percent-escapes only.\<close>

lemma encodeURIComponent_chars:
  "encodeURIComponent s = Inr r \<Longrightarrow> \<forall>c \<in> set r. uri_unreserved c \<or> percent_escape_unit c"
proof (induction s arbitrary: r rule: encodeURIComponent.induct)
  case 1
  then show ?case by simp
next
  case (2 c cs)
  show ?case
  proof (cases "uri_unreserved c")
    case True
    with "2.prems" obtain r' where r': "encodeURIComponent cs = Inr r'" and r: "r = c # r'"
      by (auto split: sum.splits)
    from "2.IH"(1) [OF True r'] True r show ?thesis by simp
  next
    case unres: False
    show ?thesis
    proof (cases "is_lead c")
      case lead: True
      with unres "2.prems" obtain d ds r'
        where cs: "cs = d # ds" and d: "is_trail d"
          and r': "encodeURIComponent ds = Inr r'"
          and r: "r = percent_code_point (pair_code_point c d) @ r'"
        by (auto split: sum.splits list.splits if_splits)
      from "2.IH"(2) [OF unres lead cs d r']
        percent_code_point_escape [OF pair_code_point_bound [OF lead d]] r
      show ?thesis by auto
    next
      case nolead: False
      with unres "2.prems" obtain r'
        where notrail: "\<not> is_trail c"
          and r': "encodeURIComponent cs = Inr r'"
          and r: "r = percent_code_point (unat c) @ r'"
        by (auto split: sum.splits if_splits)
      from "2.IH"(3) [OF unres nolead notrail r']
        percent_code_point_escape [OF unit_code_point_bound [of c]] r
      show ?thesis by auto
    qed
  qed
qed

section \<open>Facts about decoding the encoded query\<close>

lemmas decode_eval =
  decode_query_def utf8_decode_def continuation_def hex_value_def

lemma hex_value_table: "\<forall>n \<in> set [0..<16]. hex_value (upper_hex n) = Some n"
  by code_simp

lemma hex_value_upper_hex: "n < 16 \<Longrightarrow> hex_value (upper_hex n) = Some n"
  using hex_value_table by simp

lemma percent_decode_octet:
  assumes "b < 256"
  shows "percent_decode (percent_octet b @ r) = map_option ((#) b) (percent_decode r)"
proof -
  from assms have "b div 16 < 16" and "b mod 16 < 16"
    by simp_all
  then have "hex_value (upper_hex (b div 16)) = Some (b div 16)"
    and "hex_value (upper_hex (b mod 16)) = Some (b mod 16)"
    by (simp_all add: hex_value_upper_hex)
  then show ?thesis
    by (simp add: percent_octet_def)
qed

lemma percent_decode_octets:
  "\<forall>b \<in> set bytes. b < 256 \<Longrightarrow>
   percent_decode (concat (map percent_octet bytes) @ r)
     = map_option ((@) bytes) (percent_decode r)"
proof (induction bytes)
  case Nil
  show ?case by (simp add: option.map_ident)
next
  case (Cons b bytes)
  then have "b < 256" and IH: "percent_decode (concat (map percent_octet bytes) @ r)
     = map_option ((@) bytes) (percent_decode r)"
    by simp_all
  from percent_decode_octet [OF \<open>b < 256\<close>, of "concat (map percent_octet bytes) @ r"] IH
  show ?case
    by (simp add: option.map_comp comp_def)
qed

lemma percent_decode_code_point:
  "cp < 0x110000 \<Longrightarrow>
   percent_decode (percent_code_point cp @ r)
     = map_option ((@) (utf8_encode cp)) (percent_decode r)"
  unfolding percent_code_point_def
  by (rule percent_decode_octets) (rule utf8_encode_octets)

lemma unreserved_not_percent: "uri_unreserved c \<Longrightarrow> c \<noteq> 0x25"
proof
  assume "uri_unreserved c" and "c = 0x25"
  then have "uri_unreserved 0x25" by simp
  then show False
    by (simp add: uri_unreserved_def lit_def)
qed

lemma unreserved_ascii: "uri_unreserved c \<Longrightarrow> c < 0x80 \<and> unat c < 0x80"
proof -
  assume "uri_unreserved c"
  then have "unat c \<le> 0x7E"
    using unreserved_le [of c] by (simp add: word_le_nat_alt)
  then show ?thesis
    by (simp add: word_less_nat_alt)
qed

lemma percent_decode_kept:
  "uri_unreserved c \<Longrightarrow>
   percent_decode (c # r) = map_option ((#) (unat c)) (percent_decode r)"
  using unreserved_not_percent [of c] unreserved_ascii [of c] by simp

lemma low_ten_bits:
  fixes x :: nat
  assumes "k * 1024 \<le> x" and "x < k * 1024 + 1024"
  shows "x mod 1024 = x - k * 1024"
proof -
  define y where "y = x - k * 1024"
  with assms have x: "x = y + k * 1024" and y: "y < 1024"
    by simp_all
  have "(y + k * 1024) mod 1024 = y mod 1024"
    by (rule mod_mult_self1)
  with x y show ?thesis
    by simp
qed

lemma code_points_single:
  "\<not> is_lead c \<Longrightarrow> code_points (c # cs) = unat c # code_points cs"
  by (cases cs) simp_all

lemma code_points_pair:
  assumes "is_lead c" and "is_trail d"
  shows "code_points (c # d # ds) = pair_code_point c d # code_points ds"
proof -
  from assms have "0xD800 \<le> unat c" "unat c \<le> 0xDBFF" "0xDC00 \<le> unat d" "unat d \<le> 0xDFFF"
    by (simp_all add: is_lead_def is_trail_def word_le_nat_alt)
  then have "unat c mod 1024 = unat c - 54 * 1024" and "unat d mod 1024 = unat d - 55 * 1024"
    using low_ten_bits [of 54 "unat c"] low_ten_bits [of 55 "unat d"] by simp_all
  with assms show ?thesis
    by (simp add: pair_code_point_def)
qed

lemma pair_code_point_astral:
  "is_lead c \<Longrightarrow> is_trail d \<Longrightarrow> 0x10000 \<le> pair_code_point c d"
  by (simp add: pair_code_point_def)

lemma unit_not_surrogate:
  "\<not> is_lead c \<Longrightarrow> \<not> is_trail c \<Longrightarrow> \<not> (0xD800 \<le> unat c \<and> unat c < 0xE000)"
  by (auto simp: is_lead_def is_trail_def word_le_nat_alt)

lemma six_bits_twice:
  fixes x :: nat
  shows "x div (n * 64) * 64 + x div n mod 64 = x div n"
proof -
  have "x div (n * 64) = x div n div 64"
    by (rule div_mult2_eq)
  then show ?thesis
    by simp
qed

lemma utf8_run_encode:
  assumes "cp < 0x110000" and "\<not> (0xD800 \<le> cp \<and> cp < 0xE000)"
  shows "utf8_run 0 0 0 (utf8_encode cp @ bs) = map_option ((#) cp) (utf8_run 0 0 0 bs)"
proof -
  consider (one) "cp < 0x80" | (two) "0x80 \<le> cp" "cp < 0x800"
    | (three) "0x800 \<le> cp" "cp < 0x10000" | (four) "0x10000 \<le> cp"
    by linarith
  then show ?thesis
  proof cases
    case one
    then show ?thesis
      by (simp add: utf8_encode_def)
  next
    case two
    then have "cp div 64 < 32"
      by simp
    with two assms show ?thesis
      by (simp add: utf8_encode_def continuation_def)
  next
    case three
    then have hi: "cp div 4096 < 16"
      by simp
    have mid: "cp div 4096 * 64 + cp div 64 mod 64 = cp div 64"
      using six_bits_twice [of cp 64] by simp
    from three hi assms show ?thesis
      by (simp add: utf8_encode_def continuation_def mid)
  next
    case four
    with assms have hi: "cp div 262144 < 5"
      by simp
    have mid1: "cp div 262144 * 64 + cp div 4096 mod 64 = cp div 4096"
      using six_bits_twice [of cp 4096] by simp
    have mid2: "cp div 4096 * 64 + cp div 64 mod 64 = cp div 64"
      using six_bits_twice [of cp 64] by simp
    from four hi assms show ?thesis
      by (simp add: utf8_encode_def continuation_def mid1 mid2)
  qed
qed

text \<open>Decoding what was encoded gives back the code points of the string.\<close>

lemma encodeURIComponent_decodes:
  "encodeURIComponent s = Inr r \<Longrightarrow>
   \<exists>bs. percent_decode r = Some bs \<and> utf8_run 0 0 0 bs = Some (code_points s)"
proof (induction s arbitrary: r rule: encodeURIComponent.induct)
  case 1
  then show ?case by simp
next
  case (2 c cs)
  show ?case
  proof (cases "uri_unreserved c")
    case True
    with "2.prems" obtain r' where r': "encodeURIComponent cs = Inr r'" and r: "r = c # r'"
      by (auto split: sum.splits)
    from "2.IH"(1) [OF True r'] obtain bs
      where bs: "percent_decode r' = Some bs" "utf8_run 0 0 0 bs = Some (code_points cs)"
      by blast
    from True have "\<not> is_lead c"
      using unreserved_not_surrogate by blast
    then have cps: "code_points (c # cs) = unat c # code_points cs"
      by (rule code_points_single)
    from True have "unat c < 0x80"
      using unreserved_ascii by blast
    with bs have "utf8_run 0 0 0 (unat c # bs) = Some (unat c # code_points cs)"
      by simp
    moreover from bs have "percent_decode r = Some (unat c # bs)"
      by (simp only: r percent_decode_kept [OF True]) simp
    ultimately show ?thesis
      using cps by simp
  next
    case unres: False
    show ?thesis
    proof (cases "is_lead c")
      case lead: True
      with unres "2.prems" obtain d ds r'
        where cs: "cs = d # ds" and d: "is_trail d"
          and r': "encodeURIComponent ds = Inr r'"
          and r: "r = percent_code_point (pair_code_point c d) @ r'"
        by (auto split: sum.splits list.splits if_splits)
      from "2.IH"(2) [OF unres lead cs d r'] obtain bs
        where bs: "percent_decode r' = Some bs" "utf8_run 0 0 0 bs = Some (code_points ds)"
        by blast
      let ?cp = "pair_code_point c d"
      have bound: "?cp < 0x110000"
        by (rule pair_code_point_bound [OF lead d])
      have astral: "\<not> (0xD800 \<le> ?cp \<and> ?cp < 0xE000)"
        using pair_code_point_astral [OF lead d] by simp
      from bs have "percent_decode r = Some (utf8_encode ?cp @ bs)"
        by (simp add: r percent_decode_code_point [OF bound])
      moreover from bs have "utf8_run 0 0 0 (utf8_encode ?cp @ bs) = Some (?cp # code_points ds)"
        by (simp add: utf8_run_encode [OF bound astral])
      moreover have "code_points (c # cs) = ?cp # code_points ds"
        unfolding cs by (rule code_points_pair [OF lead d])
      ultimately show ?thesis
        by simp
    next
      case nolead: False
      with unres "2.prems" obtain r'
        where notrail: "\<not> is_trail c"
          and r': "encodeURIComponent cs = Inr r'"
          and r: "r = percent_code_point (unat c) @ r'"
        by (auto split: sum.splits if_splits)
      from "2.IH"(3) [OF unres nolead notrail r'] obtain bs
        where bs: "percent_decode r' = Some bs" "utf8_run 0 0 0 bs = Some (code_points cs)"
        by blast
      have bound: "unat c < 0x110000"
        by (rule unit_code_point_bound)
      have scalar: "\<not> (0xD800 \<le> unat c \<and> unat c < 0xE000)"
        by (rule unit_not_surrogate [OF nolead notrail])
      from bs have "percent_decode r = Some (utf8_encode (unat c) @ bs)"
        by (simp add: r percent_decode_code_point [OF bound])
      moreover from bs
      have "utf8_run 0 0 0 (utf8_encode (unat c) @ bs) = Some (unat c # code_points cs)"
        by (simp add: utf8_run_encode [OF bound scalar])
      moreover have "code_points (c # cs) = unat c # code_points cs"
        by (rule code_points_single [OF nolead])
      ultimately show ?thesis
        by simp
    qed
  qed
qed

lemma encodeURIComponent_round_trip:
  "encodeURIComponent s = Inr r \<Longrightarrow> decode_query r = Some (code_points s)"
  using encodeURIComponent_decodes [of s r]
  by (auto simp: decode_query_def utf8_decode_def)

lemma encodeURIComponent_unreserved:
  "list_all uri_unreserved s \<Longrightarrow> encodeURIComponent s = Inr s"
  by (induction s) simp_all

section \<open>Facts about the handler's paths\<close>

lemma bind_Inl: "bind (Inl e) f = Inl e"
  and bind_Inr: "bind (Inr x) f = f x"
  by (simp_all add: bind_def)

text \<open>A search with an encodable query: the \<open>try\<close> block decides the response.\<close>

lemma handler_search:
  assumes "pathname req = lit ''/search''"
    and "searchParams_get (searchParams req) (lit ''q'') = Some query"
    and "query \<noteq> []"
    and "encodeURIComponent query = Inr encoded"
  shows \<open>handler endpoint rt fetch req =
    (case try_block rt (fetch (endpoint @ encoded)) query of
       Inr r \<Rightarrow> Inr (r, [Fetch (endpoint @ encoded)])
     | Inl error \<Rightarrow>
         Inr (\<lparr>status = 500, headers = [],
               body = lit ''{"error":"Sorry, an error occurred while fetching the search results."}''\<rparr>,
              [Fetch (endpoint @ encoded), ConsoleError error]))\<close>
  using assms
  by (simp add: handler_def bind_Inr new_Response_def error_body_fault Let_def
      split: sum.splits)

lemma get_named_own_prop:
  "own_prop v k = Some x \<Longrightarrow> get_named (Some v) k' = Inr (own_prop v k')"
  by (cases v) simp_all

lemma get_named_not_null:
  "v \<noteq> JNull \<Longrightarrow> get_named (Some v) k = Inr (own_prop v k)"
  by (cases v) simp_all

lemma try_block_shaped:
  assumes "own_prop responseData (lit ''pageProps'') = Some pageProps"
    and "own_prop pageProps (lit ''data'') = Some (JArr (firstResult # rest))"
    and "own_prop firstResult (lit ''user'') = Some user"
    and "user \<noteq> JNull"
  shows "try_block rt (Inr responseData) query =
    Inr \<lparr>status = 200, headers = [(lit ''Content-Type'', lit ''application/json'')],
         body = JSON_stringify_literal rt
           [(lit ''title'', js_or (own_prop firstResult (lit ''title'')) (Some (JStr (lit ''N/A'')))),
            (lit ''prompt'', own_prop firstResult (lit ''prompt'')),
            (lit ''user'', own_prop user (lit ''displayName'')),
            (lit ''imageUrl'', own_prop firstResult (lit ''url''))]\<rparr>"
  using assms
  by (simp add: try_block_def bind_Inr new_Response_def
      get_named_own_prop [OF assms(1)] get_named_own_prop [OF assms(2)]
      get_named_own_prop [OF assms(3)] get_named_not_null [OF assms(4)])

lemma try_block_no_results:
  assumes "own_prop responseData (lit ''pageProps'') = Some pageProps"
    and "pageProps \<noteq> JNull"
    and "\<not> truthy (own_prop pageProps (lit ''data''))
         \<or> own_prop pageProps (lit ''data'') = Some (JArr [])"
  shows "try_block rt (Inr responseData) query =
    Inr \<lparr>status = 404, headers = [], body = error_body rt (no_results_message query)\<rparr>"
  using assms
  by (auto simp: try_block_def bind_Inr new_Response_def
      get_named_own_prop [OF assms(1)] get_named_not_null [OF assms(2)])

lemma js_or_Some: "\<exists>t. js_or a (Some b) = Some t"
  by (cases a) (simp_all add: js_or_def)

lemma try_block_cases:
  assumes "try_block rt fetched query = Inr r"
  shows "(\<exists>title prompt user imageUrl.
            r = \<lparr>status = 200, headers = [(lit ''Content-Type'', lit ''application/json'')],
                  body = JSON_stringify_literal rt
                    [(lit ''title'', Some title), (lit ''prompt'', prompt),
                     (lit ''user'', user), (lit ''imageUrl'', imageUrl)]\<rparr>)
       \<or> r = \<lparr>status = 404, headers = [], body = error_body rt (no_results_message query)\<rparr>"
proof -
  from assms obtain nonempty data where
    branch: "(if nonempty then
         bind (index0 data) (\<lambda>firstResult.
         bind (get_named firstResult (lit ''title'')) (\<lambda>title.
         bind (get_named firstResult (lit ''prompt'')) (\<lambda>prompt.
         bind (get_named firstResult (lit ''user'')) (\<lambda>user.
         bind (get_named user (lit ''displayName'')) (\<lambda>displayName.
         bind (get_named firstResult (lit ''url'')) (\<lambda>url.
           Inr (new_Response
                  (JSON_stringify_literal rt
                     [(lit ''title'', js_or title (Some (JStr (lit ''N/A'')))),
                      (lit ''prompt'', prompt),
                      (lit ''user'', displayName),
                      (lit ''imageUrl'', url)])
                  200 [(lit ''Content-Type'', lit ''application/json'')])))))))
       else
         Inr (new_Response (error_body rt (no_results_message query)) 404 [])) = Inr r"
    unfolding try_block_def bind_def
    by (auto split: sum.splits)
  show ?thesis
  proof (cases nonempty)
    case False
    with branch show ?thesis
      by (simp add: new_Response_def)
  next
    case True
    with branch obtain title prompt displayName url where
      "r = new_Response
                  (JSON_stringify_literal rt
                     [(lit ''title'', js_or title (Some (JStr (lit ''N/A'')))),
                      (lit ''prompt'', prompt),
                      (lit ''user'', displayName),
                      (lit ''imageUrl'', url)])
                  200 [(lit ''Content-Type'', lit ''application/json'')]"
      unfolding bind_def
      by (auto split: sum.splits)
    moreover obtain t where "js_or title (Some (JStr (lit ''N/A''))) = Some t"
      using js_or_Some by blast
    ultimately show ?thesis
      by (auto simp: new_Response_def)
  qed
qed

lemma scalar_value_query:
  assumes "scalar_value_request req"
    and "searchParams_get (searchParams req) name = Some v"
  shows "scalar_value_string v"
proof -
  from assms(2) have "(name, v) \<in> set (searchParams req)"
    by (simp add: searchParams_get_def map_of_SomeD)
  with assms(1) show ?thesis
    by (auto simp: scalar_value_request_def list_all_iff)
qed

text \<open>Every way the handler returns.\<close>

lemma handler_cases:
  assumes "handler endpoint rt fetch req = Inr (r, effects)"
  shows \<open>(pathname req \<noteq> lit ''/search''
        \<and> r = \<lparr>status = 404, headers = [], body = lit ''Not Found''\<rparr> \<and> effects = [])
     \<or> (pathname req = lit ''/search''
        \<and> r = \<lparr>status = 400, headers = [],
                body = lit ''{"error":"Please provide a search query."}''\<rparr>
        \<and> effects = [])
     \<or> (\<exists>query encoded.
          pathname req = lit ''/search''
        \<and> searchParams_get (searchParams req) (lit ''q'') = Some query
        \<and> query \<noteq> []
        \<and> encodeURIComponent query = Inr encoded
        \<and> ((\<exists>e. try_block rt (fetch (endpoint @ encoded)) query = Inl e
               \<and> r = \<lparr>status = 500, headers = [],
                       body = lit ''{"error":"Sorry, an error occurred while fetching the search results."}''\<rparr>
               \<and> effects = [Fetch (endpoint @ encoded), ConsoleError e])
           \<or> (try_block rt (fetch (endpoint @ encoded)) query = Inr r
               \<and> effects = [Fetch (endpoint @ encoded)])))\<close>
proof (cases "pathname req = lit ''/search''")
  case False
  with assms show ?thesis
    by (simp add: handler_def new_Response_def)
next
  case path: True
  show ?thesis
  proof (cases "searchParams_get (searchParams req) (lit ''q'')")
    case None
    with path assms show ?thesis
      by (auto simp: handler_def new_Response_def error_body_missing_query)
  next
    case (Some query)
    show ?thesis
    proof (cases "query = []")
      case True
      with path Some assms show ?thesis
        by (auto simp: handler_def new_Response_def error_body_missing_query)
    next
      case nonempty: False
      show ?thesis
      proof (cases "encodeURIComponent query")
        case (Inl e)
        with path Some nonempty assms show ?thesis
          by (simp add: handler_def bind_Inl)
      next
        case (Inr encoded)
        from assms handler_search [OF path Some nonempty Inr, of endpoint rt fetch]
        have "(\<exists>e. try_block rt (fetch (endpoint @ encoded)) query = Inl e
               \<and> r = \<lparr>status = 500, headers = [],
                       body = lit ''{\"error\":\"Sorry, an error occurred while fetching the search results.\"}''\<rparr>
               \<and> effects = [Fetch (endpoint @ encoded), ConsoleError e])
           \<or> (try_block rt (fetch (endpoint @ encoded)) query = Inr r
               \<and> effects = [Fetch (endpoint @ encoded)])"
          by (cases "try_block rt (fetch (endpoint @ encoded)) query") auto
        with path Some nonempty Inr show ?thesis
          by blast
      qed
    qed
  qed
qed

lemma sample_request_facts:
  "pathname (search_request q) = lit ''/search''"
  "searchParams_get (searchParams (search_request q)) (lit ''q'') = Some q"
  by (simp_all add: search_request_def searchParams_get_def)

lemma sample_request_scalar:
  "scalar_value_string q \<Longrightarrow> scalar_value_request (search_request q)"
  by (simp add: search_request_def scalar_value_request_def lit_def is_lead_def is_trail_def)

lemma object_text_head: "\<exists>rest. JSON_stringify rt (JObj kvs) = 0x7B # rest"
  by (simp add: lit_def)

lemma variant_text_head:
  assumes "success_variant rt r \<or> not_found_variant rt r \<or> error_variant rt r"
  shows "\<exists>rest. body r = 0x7B # rest"
  using assms
  unfolding success_variant_def not_found_variant_def error_variant_def
    JSON_stringify_literal_def
  using object_text_head by metis

lemma variants_by_status:
  "success_variant rt r \<Longrightarrow> status r = 200"
  "not_found_variant rt r \<Longrightarrow> status r = 404"
  "error_variant rt r \<Longrightarrow> status r = 400 \<or> status r = 500"
  by (simp_all add: success_variant_def not_found_variant_def error_variant_def)

section \<open>Routing and the missing query\<close>

text \<open>
  C5.  A request whose path is not exactly \<open>/search\<close> is answered with status 404 and
  the plain text \<open>Not Found\<close>, whatever its method and query string, and nothing is
  fetched.
\<close>

theorem other_path_not_found:
  "pathname req \<noteq> lit ''/search'' \<Longrightarrow>
   handler endpoint rt fetch req
     = Inr (\<lparr>status = 404, headers = [], body = lit ''Not Found''\<rparr>, [])"
  by (simp add: handler_def new_Response_def)

theorem other_path_not_found_witness:
  "pathname other_request \<noteq> lit ''/search'' \<and>
   handler endpoint_index_ts sample_runtime (upstream_gives (Inr JNull)) other_request
     = Inr (\<lparr>status = 404, headers = [], body = lit ''Not Found''\<rparr>, [])"
proof -
  have p: "pathname other_request \<noteq> lit ''/search''"
    by (simp add: other_request_def lit_def)
  from p other_path_not_found [OF p] show ?thesis
    by simp
qed

text \<open>
  C3.  A request to \<open>/search\<close> whose \<open>q\<close> is absent or empty is answered with status
  400 and the body \<open>{"error":"Please provide a search query."}\<close>, and nothing is
  fetched.
\<close>

theorem missing_query_400:
  \<open>pathname req = lit ''/search'' \<Longrightarrow>
   searchParams_get (searchParams req) (lit ''q'') = None
     \<or> searchParams_get (searchParams req) (lit ''q'') = Some [] \<Longrightarrow>
   handler endpoint rt fetch req
     = Inr (\<lparr>status = 400, headers = [],
             body = lit ''{"error":"Please provide a search query."}''\<rparr>, [])\<close>
  by (auto simp: handler_def new_Response_def error_body_missing_query)

theorem missing_query_400_witness:
  \<open>pathname bare_request = lit ''/search'' \<and>
   searchParams_get (searchParams bare_request) (lit ''q'') = None \<and>
   pathname (search_request []) = lit ''/search'' \<and>
   searchParams_get (searchParams (search_request [])) (lit ''q'') = Some [] \<and>
   handler endpoint_index_ts sample_runtime (upstream_gives (Inr JNull)) bare_request
     = Inr (\<lparr>status = 400, headers = [],
             body = lit ''{"error":"Please provide a search query."}''\<rparr>, []) \<and>
   handler endpoint_index_ts sample_runtime (upstream_gives (Inr JNull)) (search_request [])
     = Inr (\<lparr>status = 400, headers = [],
             body = lit ''{"error":"Please provide a search query."}''\<rparr>, [])\<close>
proof -
  have a: "pathname bare_request = lit ''/search''"
    and b: "searchParams_get (searchParams bare_request) (lit ''q'') = None"
    by (simp_all add: bare_request_def searchParams_get_def)
  have c: "pathname (search_request []) = lit ''/search''"
    and d: "searchParams_get (searchParams (search_request [])) (lit ''q'') = Some []"
    by (simp_all add: search_request_def searchParams_get_def)
  from a b c d
    missing_query_400 [OF a disjI1 [OF b]]
    missing_query_400 [OF c disjI2 [OF d]]
  show ?thesis
    by simp
qed

section \<open>The shaped result\<close>

text \<open>
  C1, as the handler has it.  For a request to \<open>/search\<close> with a non-empty \<open>q\<close>, when
  the upstream value has a \<open>pageProps.data\<close> array with at least one element and the
  first element is an object whose \<open>user\<close> is present and not \<open>null\<close>, the response has
  status 200, the header \<open>Content-Type: application/json\<close>, and as body the
  serialisation of \<open>{title, prompt, user, imageUrl}\<close>: \<open>title\<close> is the element's
  \<open>title\<close>, or \<open>N/A\<close> when that is missing or falsy; \<open>prompt\<close> is the element's
  \<open>prompt\<close>; \<open>user\<close> is \<open>user.displayName\<close>; \<open>imageUrl\<close> is the element's \<open>url\<close>.
\<close>

theorem first_result_shaped_200:
  assumes "pathname req = lit ''/search''"
    and "searchParams_get (searchParams req) (lit ''q'') = Some query"
    and "query \<noteq> []"
    and "encodeURIComponent query = Inr encoded"
    and "fetch (endpoint @ encoded) = Inr responseData"
    and "own_prop responseData (lit ''pageProps'') = Some pageProps"
    and "own_prop pageProps (lit ''data'') = Some (JArr (firstResult # rest))"
    and "own_prop firstResult (lit ''user'') = Some user"
    and "user \<noteq> JNull"
  shows "\<exists>title.
    handler endpoint rt fetch req =
      Inr (\<lparr>status = 200, headers = [(lit ''Content-Type'', lit ''application/json'')],
            body = JSON_stringify_literal rt
              [(lit ''title'', Some title),
               (lit ''prompt'', own_prop firstResult (lit ''prompt'')),
               (lit ''user'', own_prop user (lit ''displayName'')),
               (lit ''imageUrl'', own_prop firstResult (lit ''url''))]\<rparr>,
           [Fetch (endpoint @ encoded)])
    \<and> (if truthy (own_prop firstResult (lit ''title''))
       then own_prop firstResult (lit ''title'') = Some title
       else title = JStr (lit ''N/A''))"
proof -
  let ?t = "own_prop firstResult (lit ''title'')"
  have run: "handler endpoint rt fetch req =
      Inr (\<lparr>status = 200, headers = [(lit ''Content-Type'', lit ''application/json'')],
            body = JSON_stringify_literal rt
              [(lit ''title'', js_or ?t (Some (JStr (lit ''N/A'')))),
               (lit ''prompt'', own_prop firstResult (lit ''prompt'')),
               (lit ''user'', own_prop user (lit ''displayName'')),
               (lit ''imageUrl'', own_prop firstResult (lit ''url''))]\<rparr>,
           [Fetch (endpoint @ encoded)])"
    by (simp add: handler_search [OF assms(1-4)] assms(5)
        try_block_shaped [OF assms(6-9)])
  show ?thesis
  proof (cases "truthy ?t")
    case True
    then obtain t where t: "?t = Some t"
      by (cases ?t) simp_all
    with True run show ?thesis
      by (simp add: js_or_def)
  next
    case False
    with run show ?thesis
      by (simp add: js_or_def)
  qed
qed

theorem first_result_shaped_200_witness:
  \<open>pathname (search_request (lit ''foo'')) = lit ''/search'' \<and>
   searchParams_get (searchParams (search_request (lit ''foo''))) (lit ''q'') = Some (lit ''foo'') \<and>
   lit ''foo'' \<noteq> [] \<and>
   encodeURIComponent (lit ''foo'') = Inr (lit ''foo'') \<and>
   own_prop (page_of [sample_result]) (lit ''pageProps'')
     = Some (JObj [(lit ''data'', JArr [sample_result])]) \<and>
   own_prop (JObj [(lit ''data'', JArr [sample_result])]) (lit ''data'')
     = Some (JArr [sample_result]) \<and>
   own_prop sample_result (lit ''user'') = Some (JObj [(lit ''displayName'', JStr (lit ''U''))]) \<and>
   handler endpoint_index_ts sample_runtime (upstream_gives (Inr (page_of [sample_result])))
       (search_request (lit ''foo''))
     = Inr (\<lparr>status = 200, headers = [(lit ''Content-Type'', lit ''application/json'')],
             body = lit ''{"title":"T","prompt":"P","user":"U","imageUrl":"http://x"}''\<rparr>,
            [Fetch (endpoint_index_ts @ lit ''foo'')]) \<and>
   own_prop untitled_result (lit ''title'') = Some (JStr []) \<and>
   handler endpoint_index_ts sample_runtime (upstream_gives (Inr (page_of [untitled_result])))
       (search_request (lit ''foo''))
     = Inr (\<lparr>status = 200, headers = [(lit ''Content-Type'', lit ''application/json'')],
             body = lit ''{"title":"N/A","prompt":"P","user":"U","imageUrl":"http://x"}''\<rparr>,
            [Fetch (endpoint_index_ts @ lit ''foo'')])\<close>
proof -
  let ?req = "search_request (lit ''foo'')"
  let ?user = "JObj [(lit ''displayName'', JStr (lit ''U''))]"
  let ?page = "JObj [(lit ''data'', JArr [sample_result])]"
  have untitled: "own_prop untitled_result (lit ''title'') = Some (JStr [])"
    by (simp add: untitled_result_def)
  have fallback: \<open>handler endpoint_index_ts sample_runtime
       (upstream_gives (Inr (page_of [untitled_result]))) ?req
     = Inr (\<lparr>status = 200, headers = [(lit ''Content-Type'', lit ''application/json'')],
             body = lit ''{"title":"N/A","prompt":"P","user":"U","imageUrl":"http://x"}''\<rparr>,
            [Fetch (endpoint_index_ts @ lit ''foo'')])\<close>
    by (simp add: handler_eval untitled_result_def string_eval)
  have h1: "pathname ?req = lit ''/search''"
    by (simp add: search_request_def)
  have h2: "searchParams_get (searchParams ?req) (lit ''q'') = Some (lit ''foo'')"
    by (simp add: search_request_def searchParams_get_def)
  have h3: "lit ''foo'' \<noteq> []"
    by (simp add: lit_def)
  have h4: "encodeURIComponent (lit ''foo'') = Inr (lit ''foo'')"
    by (simp add: string_eval)
  have h5: "upstream_gives (Inr (page_of [sample_result])) (endpoint_index_ts @ lit ''foo'')
      = Inr (page_of [sample_result])"
    by (simp add: upstream_gives_def)
  have h6: "own_prop (page_of [sample_result]) (lit ''pageProps'') = Some ?page"
    by (simp add: page_of_def)
  have h7: "own_prop ?page (lit ''data'') = Some (JArr (sample_result # []))"
    by simp
  have h8: "own_prop sample_result (lit ''user'') = Some ?user"
    by (simp add: sample_result_def lit_def)
  have h9: "?user \<noteq> JNull"
    by simp
  from first_result_shaped_200 [where fetch = "upstream_gives (Inr (page_of [sample_result]))"
      and endpoint = endpoint_index_ts and rt = sample_runtime, OF h1 h2 h3 h4 h5 h6 h7 h8 h9]
  obtain title where
    run: "handler endpoint_index_ts sample_runtime
            (upstream_gives (Inr (page_of [sample_result]))) ?req =
      Inr (\<lparr>status = 200, headers = [(lit ''Content-Type'', lit ''application/json'')],
            body = JSON_stringify_literal sample_runtime
              [(lit ''title'', Some title),
               (lit ''prompt'', own_prop sample_result (lit ''prompt'')),
               (lit ''user'', own_prop ?user (lit ''displayName'')),
               (lit ''imageUrl'', own_prop sample_result (lit ''url''))]\<rparr>,
           [Fetch (endpoint_index_ts @ lit ''foo'')])"
    and title: "if truthy (own_prop sample_result (lit ''title''))
       then own_prop sample_result (lit ''title'') = Some title
       else title = JStr (lit ''N/A'')"
    by blast
  from title have "title = JStr (lit ''T'')"
    by (simp add: sample_result_def lit_def)
  with run have \<open>handler endpoint_index_ts sample_runtime
       (upstream_gives (Inr (page_of [sample_result]))) ?req
     = Inr (\<lparr>status = 200, headers = [(lit ''Content-Type'', lit ''application/json'')],
             body = lit ''{"title":"T","prompt":"P","user":"U","imageUrl":"http://x"}''\<rparr>,
            [Fetch (endpoint_index_ts @ lit ''foo'')])\<close>
    by (simp add: sample_result_def JSON_stringify_literal_def string_eval)
  with h1 h2 h3 h4 h6 h7 h8 untitled fallback show ?thesis
    by simp
qed

text \<open>
  C1 as stated asks nothing of the first element.  With a first element that has no
  \<open>user\<close>, reading \<open>displayName\<close> throws and the response is the 500 one.
\<close>

theorem first_result_without_user_500:
  \<open>own_prop (page_of [result_without_user]) (lit ''pageProps'')
     = Some (JObj [(lit ''data'', JArr [result_without_user])]) \<and>
   handler endpoint_index_ts sample_runtime
       (upstream_gives (Inr (page_of [result_without_user]))) (search_request (lit ''foo''))
     = Inr (\<lparr>status = 500, headers = [],
             body = lit ''{"error":"Sorry, an error occurred while fetching the search results."}''\<rparr>,
            [Fetch (endpoint_index_ts @ lit ''foo''), ConsoleError (TypeError (lit ''displayName''))])\<close>
  by (simp add: handler_eval result_without_user_def string_eval)

section \<open>No results\<close>

text \<open>
  C2, as the handler has it.  For a request to \<open>/search\<close> with a non-empty \<open>q\<close>, when
  the upstream value has a \<open>pageProps\<close> that is not \<open>null\<close> and the \<open>data\<close> of it is
  absent, falsy or an empty array, the response has status 404 and the body
  \<open>{"error":"No results found for \"<query>\"."}\<close>, with the query as it was
  received.
\<close>

theorem no_results_404:
  assumes "pathname req = lit ''/search''"
    and "searchParams_get (searchParams req) (lit ''q'') = Some query"
    and "query \<noteq> []"
    and "encodeURIComponent query = Inr encoded"
    and "fetch (endpoint @ encoded) = Inr responseData"
    and "own_prop responseData (lit ''pageProps'') = Some pageProps"
    and "pageProps \<noteq> JNull"
    and "\<not> truthy (own_prop pageProps (lit ''data''))
         \<or> own_prop pageProps (lit ''data'') = Some (JArr [])"
  shows \<open>handler endpoint rt fetch req =
    Inr (\<lparr>status = 404, headers = [],
          body = JSON_stringify rt
            (JObj [(lit ''error'',
                    JStr (lit ''No results found for "'' @ query @ lit ''".''))])\<rparr>,
         [Fetch (endpoint @ encoded)])\<close>
  by (simp add: handler_search [OF assms(1-4)] assms(5) try_block_no_results [OF assms(6-8)]
      error_body_def no_results_message_lit)

theorem no_results_404_witness:
  \<open>pathname (search_request (lit ''foo'')) = lit ''/search'' \<and>
   searchParams_get (searchParams (search_request (lit ''foo''))) (lit ''q'') = Some (lit ''foo'') \<and>
   lit ''foo'' \<noteq> [] \<and>
   encodeURIComponent (lit ''foo'') = Inr (lit ''foo'') \<and>
   own_prop (page_of []) (lit ''pageProps'') = Some (JObj [(lit ''data'', JArr [])]) \<and>
   own_prop (JObj [(lit ''data'', JArr [])]) (lit ''data'') = Some (JArr []) \<and>
   handler endpoint_index_ts sample_runtime (upstream_gives (Inr (page_of [])))
       (search_request (lit ''foo''))
     = Inr (\<lparr>status = 404, headers = [],
             body = lit ''{"error":"No results found for '' @ [0x5C, 0x22] @ lit ''foo''
                      @ [0x5C, 0x22] @ lit ''."}''\<rparr>,
            [Fetch (endpoint_index_ts @ lit ''foo'')])\<close>
proof -
  let ?req = "search_request (lit ''foo'')"
  let ?page = "JObj [(lit ''data'', JArr [])]"
  have h1: "pathname ?req = lit ''/search''"
    by (simp add: search_request_def)
  have h2: "searchParams_get (searchParams ?req) (lit ''q'') = Some (lit ''foo'')"
    by (simp add: search_request_def searchParams_get_def)
  have h3: "lit ''foo'' \<noteq> []"
    by (simp add: lit_def)
  have h4: "encodeURIComponent (lit ''foo'') = Inr (lit ''foo'')"
    by (simp add: string_eval)
  have h5: "upstream_gives (Inr (page_of [])) (endpoint_index_ts @ lit ''foo'')
      = Inr (page_of [])"
    by (simp add: upstream_gives_def)
  have h6: "own_prop (page_of []) (lit ''pageProps'') = Some ?page"
    by (simp add: page_of_def)
  have h7: "?page \<noteq> JNull"
    by simp
  have h8: "own_prop ?page (lit ''data'') = Some (JArr [])"
    by simp
  from no_results_404 [where fetch = "upstream_gives (Inr (page_of []))"
      and endpoint = endpoint_index_ts and rt = sample_runtime,
      OF h1 h2 h3 h4 h5 h6 h7 disjI2 [OF h8]]
  have \<open>handler endpoint_index_ts sample_runtime (upstream_gives (Inr (page_of []))) ?req
     = Inr (\<lparr>status = 404, headers = [],
             body = lit ''{"error":"No results found for '' @ [0x5C, 0x22] @ lit ''foo''
                      @ [0x5C, 0x22] @ lit ''."}''\<rparr>,
            [Fetch (endpoint_index_ts @ lit ''foo'')])\<close>
    by (simp add: string_eval)
  with h1 h2 h3 h4 h6 h8 show ?thesis
    by simp
qed

text \<open>
  C2 as stated also covers an upstream value without \<open>pageProps\<close>.  There the read of
  \<open>data\<close> throws and the response is the 500 one.
\<close>

theorem absent_pageProps_500:
  \<open>own_prop (JObj []) (lit ''pageProps'') = None \<and>
   handler endpoint_index_ts sample_runtime (upstream_gives (Inr (JObj [])))
       (search_request (lit ''foo''))
     = Inr (\<lparr>status = 500, headers = [],
             body = lit ''{"error":"Sorry, an error occurred while fetching the search results."}''\<rparr>,
            [Fetch (endpoint_index_ts @ lit ''foo''), ConsoleError (TypeError (lit ''data''))])\<close>
  by (simp add: handler_eval string_eval)

section \<open>Faults\<close>

text \<open>
  C4.  For a request to \<open>/search\<close> with a non-empty \<open>q\<close> (a scalar value string, as
  every value of \<open>URLSearchParams\<close> is), the query is encoded and the handler returns a
  response: no exception leaves it.  Whatever is thrown inside the \<open>try\<close> block
  yields status 500 with the fixed body
  \<open>{"error":"Sorry, an error occurred while fetching the search results."}\<close>, in which
  nothing of the exception appears; the exception goes to the log.  A rejected
  outbound call or JSON parse is thrown there, and so is the read of \<open>displayName\<close>
  when the first result has no \<open>user\<close>.
\<close>

theorem fault_500:
  assumes "pathname req = lit ''/search''"
    and "searchParams_get (searchParams req) (lit ''q'') = Some query"
    and "query \<noteq> []"
    and "scalar_value_request req"
  shows \<open>\<exists>encoded. encodeURIComponent query = Inr encoded
    \<and> (\<exists>r effects. handler endpoint rt fetch req = Inr (r, effects))
    \<and> (\<forall>e. try_block rt (fetch (endpoint @ encoded)) query = Inl e \<longrightarrow>
          handler endpoint rt fetch req =
            Inr (\<lparr>status = 500, headers = [],
                  body = lit ''{"error":"Sorry, an error occurred while fetching the search results."}''\<rparr>,
                 [Fetch (endpoint @ encoded), ConsoleError e]))
    \<and> (\<forall>e. fetch (endpoint @ encoded) = Inl e \<longrightarrow>
          try_block rt (fetch (endpoint @ encoded)) query = Inl e)
    \<and> (\<forall>responseData pageProps firstResult rest.
          fetch (endpoint @ encoded) = Inr responseData
          \<and> own_prop responseData (lit ''pageProps'') = Some pageProps
          \<and> own_prop pageProps (lit ''data'') = Some (JArr (firstResult # rest))
          \<and> firstResult \<noteq> JNull
          \<and> (own_prop firstResult (lit ''user'') = None
             \<or> own_prop firstResult (lit ''user'') = Some JNull) \<longrightarrow>
          try_block rt (fetch (endpoint @ encoded)) query = Inl (TypeError (lit ''displayName'')))\<close>
proof -
  from assms(4,2) have "scalar_value_string query"
    by (rule scalar_value_query)
  then obtain encoded where enc: "encodeURIComponent query = Inr encoded"
    using encodeURIComponent_total by blast
  note run = handler_search [OF assms(1-3) enc, of endpoint rt fetch]
  have returns: "\<exists>r effects. handler endpoint rt fetch req = Inr (r, effects)"
    by (cases "try_block rt (fetch (endpoint @ encoded)) query") (simp_all add: run)
  have caught: \<open>\<forall>e. try_block rt (fetch (endpoint @ encoded)) query = Inl e \<longrightarrow>
          handler endpoint rt fetch req =
            Inr (\<lparr>status = 500, headers = [],
                  body = lit ''{"error":"Sorry, an error occurred while fetching the search results."}''\<rparr>,
                 [Fetch (endpoint @ encoded), ConsoleError e])\<close>
    by (simp add: run)
  have rejected: "\<forall>e. fetch (endpoint @ encoded) = Inl e \<longrightarrow>
          try_block rt (fetch (endpoint @ encoded)) query = Inl e"
    by (simp add: try_block_def bind_Inl)
  have navigation: "\<forall>responseData pageProps firstResult rest.
          fetch (endpoint @ encoded) = Inr responseData
          \<and> own_prop responseData (lit ''pageProps'') = Some pageProps
          \<and> own_prop pageProps (lit ''data'') = Some (JArr (firstResult # rest))
          \<and> firstResult \<noteq> JNull
          \<and> (own_prop firstResult (lit ''user'') = None
             \<or> own_prop firstResult (lit ''user'') = Some JNull) \<longrightarrow>
          try_block rt (fetch (endpoint @ encoded)) query = Inl (TypeError (lit ''displayName''))"
  proof (intro allI impI, elim conjE)
    fix responseData pageProps firstResult rest
    assume f: "fetch (endpoint @ encoded) = Inr responseData"
      and p: "own_prop responseData (lit ''pageProps'') = Some pageProps"
      and d: "own_prop pageProps (lit ''data'') = Some (JArr (firstResult # rest))"
      and n: "firstResult \<noteq> JNull"
      and u: "own_prop firstResult (lit ''user'') = None
             \<or> own_prop firstResult (lit ''user'') = Some JNull"
    from u show "try_block rt (fetch (endpoint @ encoded)) query = Inl (TypeError (lit ''displayName''))"
      by (auto simp: try_block_def f bind_Inr bind_Inl get_named_own_prop [OF p] p
          get_named_own_prop [OF d] d get_named_not_null [OF n])
  qed
  from enc returns caught rejected navigation show ?thesis
    by blast
qed

theorem fault_500_witness:
  \<open>pathname (search_request (lit ''foo'')) = lit ''/search'' \<and>
   searchParams_get (searchParams (search_request (lit ''foo''))) (lit ''q'') = Some (lit ''foo'') \<and>
   lit ''foo'' \<noteq> [] \<and>
   scalar_value_request (search_request (lit ''foo'')) \<and>
   handler endpoint_index_ts sample_runtime
       (upstream_gives (Inl (Rejected (lit ''connection refused''))))
       (search_request (lit ''foo''))
     = Inr (\<lparr>status = 500, headers = [],
             body = lit ''{"error":"Sorry, an error occurred while fetching the search results."}''\<rparr>,
            [Fetch (endpoint_index_ts @ lit ''foo''),
             ConsoleError (Rejected (lit ''connection refused''))])\<close>
proof -
  let ?req = "search_request (lit ''foo'')"
  let ?fetch = "upstream_gives (Inl (Rejected (lit ''connection refused'')))"
  have h1: "pathname ?req = lit ''/search''"
    and h2: "searchParams_get (searchParams ?req) (lit ''q'') = Some (lit ''foo'')"
    by (rule sample_request_facts)+
  have h3: "lit ''foo'' \<noteq> []"
    by (simp add: lit_def)
  have h4: "scalar_value_request ?req"
    by (rule sample_request_scalar) (simp add: lit_def is_lead_def is_trail_def)
  have enc: "encodeURIComponent (lit ''foo'') = Inr (lit ''foo'')"
    by (simp add: string_eval)
  from fault_500 [where fetch = ?fetch and endpoint = endpoint_index_ts
      and rt = sample_runtime, OF h1 h2 h3 h4] enc
  have caught: \<open>\<forall>e. try_block sample_runtime (?fetch (endpoint_index_ts @ lit ''foo'')) (lit ''foo'') = Inl e \<longrightarrow>
          handler endpoint_index_ts sample_runtime ?fetch ?req =
            Inr (\<lparr>status = 500, headers = [],
                  body = lit ''{"error":"Sorry, an error occurred while fetching the search results."}''\<rparr>,
                 [Fetch (endpoint_index_ts @ lit ''foo''), ConsoleError e])\<close>
    and rejected: "\<forall>e. ?fetch (endpoint_index_ts @ lit ''foo'') = Inl e \<longrightarrow>
          try_block sample_runtime (?fetch (endpoint_index_ts @ lit ''foo'')) (lit ''foo'') = Inl e"
    by auto
  have "?fetch (endpoint_index_ts @ lit ''foo'') = Inl (Rejected (lit ''connection refused''))"
    by (simp add: upstream_gives_def)
  with rejected have
    "try_block sample_runtime (?fetch (endpoint_index_ts @ lit ''foo'')) (lit ''foo'')
       = Inl (Rejected (lit ''connection refused''))"
    by blast
  with caught have \<open>handler endpoint_index_ts sample_runtime ?fetch ?req =
            Inr (\<lparr>status = 500, headers = [],
                  body = lit ''{"error":"Sorry, an error occurred while fetching the search results."}''\<rparr>,
                 [Fetch (endpoint_index_ts @ lit ''foo''),
                  ConsoleError (Rejected (lit ''connection refused''))])\<close>
    by blast
  with h1 h2 h3 h4 show ?thesis
    by blast
qed

section \<open>The query, encoded and raw\<close>

text \<open>
  C6.  For a request to \<open>/search\<close> with a non-empty \<open>q\<close>, the URL fetched is the
  endpoint followed by the percent-encoded query: a string of unreserved code units
  and percent-escapes only (so a space never stays) which, read back as
  percent-escaped UTF-8, gives exactly the code points of the query, and which is the
  query itself when the query holds unreserved code units only.  The message of the
  404 no-results response holds the query as it was received.
\<close>

theorem upstream_url_encoded_message_raw:
  assumes "pathname req = lit ''/search''"
    and "searchParams_get (searchParams req) (lit ''q'') = Some query"
    and "query \<noteq> []"
    and "scalar_value_request req"
  shows \<open>\<exists>encoded r effects.
      encodeURIComponent query = Inr encoded
    \<and> (\<forall>c \<in> set encoded. uri_unreserved c \<or> percent_escape_unit c)
    \<and> decode_query encoded = Some (code_points query)
    \<and> (list_all uri_unreserved query \<longrightarrow> encoded = query)
    \<and> handler endpoint rt fetch req = Inr (r, Fetch (endpoint @ encoded) # effects)
    \<and> (status r = 404 \<longrightarrow>
         body r = JSON_stringify rt
           (JObj [(lit ''error'',
                   JStr (lit ''No results found for "'' @ query @ lit ''".''))]))\<close>
proof -
  from assms(4,2) have "scalar_value_string query"
    by (rule scalar_value_query)
  then obtain encoded where enc: "encodeURIComponent query = Inr encoded"
    using encodeURIComponent_total by blast
  then have chars: "\<forall>c \<in> set encoded. uri_unreserved c \<or> percent_escape_unit c"
    by (rule encodeURIComponent_chars)
  from enc have decoded: "decode_query encoded = Some (code_points query)"
    by (rule encodeURIComponent_round_trip)
  from enc have kept: "list_all uri_unreserved query \<longrightarrow> encoded = query"
    using encodeURIComponent_unreserved [of query] by auto
  note run = handler_search [OF assms(1-3) enc, of endpoint rt fetch]
  show ?thesis
  proof (cases "try_block rt (fetch (endpoint @ encoded)) query")
    case (Inl e)
    with run have h: \<open>handler endpoint rt fetch req =
        Inr (\<lparr>status = 500, headers = [],
               body = lit ''{"error":"Sorry, an error occurred while fetching the search results."}''\<rparr>,
             Fetch (endpoint @ encoded) # [ConsoleError e])\<close>
      by simp
    from enc chars decoded kept h show ?thesis
      by (intro exI conjI) (assumption | simp)+
  next
    case (Inr r)
    with run have h: "handler endpoint rt fetch req = Inr (r, Fetch (endpoint @ encoded) # [])"
      by simp
    from try_block_cases [OF Inr]
    have msg: \<open>status r = 404 \<longrightarrow>
         body r = JSON_stringify rt
           (JObj [(lit ''error'',
                   JStr (lit ''No results found for "'' @ query @ lit ''".''))])\<close>
      by (auto simp: error_body_def no_results_message_lit)
    from enc chars decoded kept h msg show ?thesis
      by blast
  qed
qed

theorem upstream_url_encoded_message_raw_witness:
  \<open>pathname (search_request (lit ''a b'')) = lit ''/search'' \<and>
   searchParams_get (searchParams (search_request (lit ''a b''))) (lit ''q'') = Some (lit ''a b'') \<and>
   lit ''a b'' \<noteq> [] \<and>
   scalar_value_request (search_request (lit ''a b'')) \<and>
   encodeURIComponent (lit ''a b'') = Inr (lit ''a%20b'') \<and>
   handler endpoint_index_ts sample_runtime (upstream_gives (Inr (page_of [])))
       (search_request (lit ''a b''))
     = Inr (\<lparr>status = 404, headers = [],
             body = lit ''{"error":"No results found for '' @ [0x5C, 0x22] @ lit ''a b''
                      @ [0x5C, 0x22] @ lit ''."}''\<rparr>,
            [Fetch (lit ''https://playground.com/_next/data/DKheFsybTy-HQ-Exsbzy9/search.json?q=a%20b'')]) \<and>
   scalar_value_request (search_request [0xE9]) \<and>
   code_points [0xE9] = [0xE9] \<and>
   encodeURIComponent [0xE9] = Inr (lit ''%C3%A9'') \<and>
   decode_query (lit ''%C3%A9'') = Some [0xE9] \<and>
   handler endpoint_index_ts sample_runtime (upstream_gives (Inr (page_of [])))
       (search_request [0xE9])
     = Inr (\<lparr>status = 404, headers = [],
             body = lit ''{"error":"No results found for '' @ [0x5C, 0x22] @ [0xE9]
                      @ [0x5C, 0x22] @ lit ''."}''\<rparr>,
            [Fetch (lit ''https://playground.com/_next/data/DKheFsybTy-HQ-Exsbzy9/search.json?q=%C3%A9'')]) \<and>
   scalar_value_request (search_request [0xD83D, 0xDE00]) \<and>
   code_points [0xD83D, 0xDE00] = [0x1F600] \<and>
   encodeURIComponent [0xD83D, 0xDE00] = Inr (lit ''%F0%9F%98%80'') \<and>
   decode_query (lit ''%F0%9F%98%80'') = Some [0x1F600] \<and>
   handler endpoint_index_ts sample_runtime (upstream_gives (Inr (page_of [])))
       (search_request [0xD83D, 0xDE00])
     = Inr (\<lparr>status = 404, headers = [],
             body = lit ''{"error":"No results found for '' @ [0x5C, 0x22] @ [0xD83D, 0xDE00]
                      @ [0x5C, 0x22] @ lit ''."}''\<rparr>,
            [Fetch (lit ''https://playground.com/_next/data/DKheFsybTy-HQ-Exsbzy9/search.json?q=%F0%9F%98%80'')])\<close>
proof -
  let ?fetch = "upstream_gives (Inr (page_of []))"
  let ?space = "search_request (lit ''a b'')"
  let ?accent = "search_request [0xE9]"
  let ?astral = "search_request [0xD83D, 0xDE00]"
  have a1: "pathname ?space = lit ''/search''"
    and a2: "searchParams_get (searchParams ?space) (lit ''q'') = Some (lit ''a b'')"
    by (rule sample_request_facts)+
  have a3: "lit ''a b'' \<noteq> []"
    by (simp add: lit_def)
  have a4: "scalar_value_request ?space"
    by (rule sample_request_scalar) (simp add: lit_def is_lead_def is_trail_def)
  have a5: "encodeURIComponent (lit ''a b'') = Inr (lit ''a%20b'')"
    by (simp add: string_eval)
  have a6: \<open>handler endpoint_index_ts sample_runtime ?fetch ?space
     = Inr (\<lparr>status = 404, headers = [],
             body = lit ''{"error":"No results found for '' @ [0x5C, 0x22] @ lit ''a b''
                      @ [0x5C, 0x22] @ lit ''."}''\<rparr>,
            [Fetch (lit ''https://playground.com/_next/data/DKheFsybTy-HQ-Exsbzy9/search.json?q=a%20b'')])\<close>
    by (simp add: handler_eval string_eval)
  have b1: "pathname ?accent = lit ''/search''"
    and b2: "searchParams_get (searchParams ?accent) (lit ''q'') = Some [0xE9]"
    by (rule sample_request_facts)+
  have b3: "[0xE9 :: code_unit] \<noteq> []"
    by simp
  have b4: "scalar_value_request ?accent"
    by (rule sample_request_scalar) (simp add: is_lead_def is_trail_def)
  have b5: "encodeURIComponent [0xE9] = Inr (lit ''%C3%A9'')"
    by (simp add: string_eval)
  have b6: "code_points [0xE9] = [0xE9]"
    by simp
  have b7: \<open>handler endpoint_index_ts sample_runtime ?fetch ?accent
     = Inr (\<lparr>status = 404, headers = [],
             body = lit ''{"error":"No results found for '' @ [0x5C, 0x22] @ [0xE9]
                      @ [0x5C, 0x22] @ lit ''."}''\<rparr>,
            [Fetch (lit ''https://playground.com/_next/data/DKheFsybTy-HQ-Exsbzy9/search.json?q=%C3%A9'')])\<close>
    by (simp add: handler_eval string_eval)
  have c1: "pathname ?astral = lit ''/search''"
    and c2: "searchParams_get (searchParams ?astral) (lit ''q'') = Some [0xD83D, 0xDE00]"
    by (rule sample_request_facts)+
  have c3: "[0xD83D, 0xDE00 :: code_unit] \<noteq> []"
    by simp
  have c4: "scalar_value_request ?astral"
    by (rule sample_request_scalar) (simp add: is_lead_def is_trail_def)
  have c5: "encodeURIComponent [0xD83D, 0xDE00] = Inr (lit ''%F0%9F%98%80'')"
    by (simp add: string_eval pair_code_point_def)
  have c6: "code_points [0xD83D, 0xDE00] = [0x1F600]"
    by (simp add: is_lead_def is_trail_def)
  have c7: \<open>handler endpoint_index_ts sample_runtime ?fetch ?astral
     = Inr (\<lparr>status = 404, headers = [],
             body = lit ''{"error":"No results found for '' @ [0x5C, 0x22] @ [0xD83D, 0xDE00]
                      @ [0x5C, 0x22] @ lit ''."}''\<rparr>,
            [Fetch (lit ''https://playground.com/_next/data/DKheFsybTy-HQ-Exsbzy9/search.json?q=%F0%9F%98%80'')])\<close>
    by (simp add: handler_eval string_eval pair_code_point_def)
  from upstream_url_encoded_message_raw [where fetch = ?fetch and endpoint = endpoint_index_ts
      and rt = sample_runtime, OF b1 b2 b3 b4] b5 b6
  have b8: "decode_query (lit ''%C3%A9'') = Some [0xE9]"
    by auto
  from upstream_url_encoded_message_raw [where fetch = ?fetch and endpoint = endpoint_index_ts
      and rt = sample_runtime, OF c1 c2 c3 c4] c5 c6
  have c8: "decode_query (lit ''%F0%9F%98%80'') = Some [0x1F600]"
    by auto
  from upstream_url_encoded_message_raw [where fetch = ?fetch and endpoint = endpoint_index_ts
      and rt = sample_runtime, OF a1 a2 a3 a4] a5
  have a8: "decode_query (lit ''a%20b'') = Some (code_points (lit ''a b''))"
    by auto
  from a1 a2 a3 a4 a5 a6 b4 b6 b5 b8 b7 c4 c6 c5 c8 c7 show ?thesis
    by (intro conjI)
qed

section \<open>The shapes of the responses\<close>

text \<open>
  C7, as the handler has it.  For every request whose path is exactly \<open>/search\<close>, the
  handler returns a response that is exactly one of the three variants, each with
  its status: success with 200, not-found with 404, client/server error with 400 or
  500.
\<close>

theorem search_response_variant:
  assumes "pathname req = lit ''/search''"
    and "scalar_value_request req"
  shows "\<exists>r effects. handler endpoint rt fetch req = Inr (r, effects)
           \<and> exactly_one_variant rt r"
proof -
  have returns: "\<exists>r effects. handler endpoint rt fetch req = Inr (r, effects)"
  proof (cases "searchParams_get (searchParams req) (lit ''q'')")
    case None
    with assms(1) show ?thesis
      by (simp add: handler_def)
  next
    case (Some query)
    show ?thesis
    proof (cases "query = []")
      case True
      with assms(1) Some show ?thesis
        by (simp add: handler_def)
    next
      case False
      from assms(2) Some have "scalar_value_string query"
        by (rule scalar_value_query)
      then obtain encoded where "encodeURIComponent query = Inr encoded"
        using encodeURIComponent_total by blast
      from handler_search [OF assms(1) Some False this, of endpoint rt fetch]
      show ?thesis
        by (cases "try_block rt (fetch (endpoint @ encoded)) query") simp_all
    qed
  qed
  then obtain r effects where run: "handler endpoint rt fetch req = Inr (r, effects)"
    by blast
  from handler_cases [OF run] assms(1)
  consider
    (missing) \<open>r = \<lparr>status = 400, headers = [],
                body = lit ''{"error":"Please provide a search query."}''\<rparr>\<close>
  | (fault) \<open>r = \<lparr>status = 500, headers = [],
                body = lit ''{"error":"Sorry, an error occurred while fetching the search results."}''\<rparr>\<close>
  | (tried) query encoded where "try_block rt (fetch (endpoint @ encoded)) query = Inr r"
    by blast
  then have "success_variant rt r \<and> status r = 200
      \<or> not_found_variant rt r \<and> status r = 404
      \<or> error_variant rt r \<and> (status r = 400 \<or> status r = 500)"
  proof cases
    case missing
    then have "error_variant rt r"
      unfolding error_variant_def
      using error_body_missing_query [of rt, symmetric]
      by (auto simp: error_body_def)
    with missing show ?thesis by simp
  next
    case fault
    then have "error_variant rt r"
      unfolding error_variant_def
      using error_body_fault [of rt, symmetric]
      by (auto simp: error_body_def)
    with fault show ?thesis by simp
  next
    case tried
    from try_block_cases [OF tried] show ?thesis
    proof
      assume "\<exists>title prompt user imageUrl.
            r = \<lparr>status = 200, headers = [(lit ''Content-Type'', lit ''application/json'')],
                  body = JSON_stringify_literal rt
                    [(lit ''title'', Some title), (lit ''prompt'', prompt),
                     (lit ''user'', user), (lit ''imageUrl'', imageUrl)]\<rparr>"
      then obtain title prompt user imageUrl where
        r: "r = \<lparr>status = 200, headers = [(lit ''Content-Type'', lit ''application/json'')],
                  body = JSON_stringify_literal rt
                    [(lit ''title'', Some title), (lit ''prompt'', prompt),
                     (lit ''user'', user), (lit ''imageUrl'', imageUrl)]\<rparr>"
        by blast
      have ok: "status r = 200"
        by (simp add: r)
      have "body r = JSON_stringify_literal rt
                    [(lit ''title'', Some title), (lit ''prompt'', prompt),
                     (lit ''user'', user), (lit ''imageUrl'', imageUrl)]"
        by (simp add: r)
      with ok have "success_variant rt r"
        unfolding success_variant_def by blast
      with ok show ?thesis by simp
    next
      assume "r = \<lparr>status = 404, headers = [], body = error_body rt (no_results_message query)\<rparr>"
      then have "not_found_variant rt r \<and> status r = 404"
        unfolding not_found_variant_def
        by (auto simp: error_body_def no_results_message_lit)
      then show ?thesis by simp
    qed
  qed
  then have "exactly_one_variant rt r"
    unfolding exactly_one_variant_def
    using variants_by_status [of rt r] by auto
  with run show ?thesis
    by blast
qed

theorem search_response_variant_witness:
  \<open>pathname (search_request (lit ''foo'')) = lit ''/search'' \<and>
   scalar_value_request (search_request (lit ''foo'')) \<and>
   (\<exists>r effects.
      handler endpoint_index_ts sample_runtime (upstream_gives (Inr (page_of [sample_result])))
        (search_request (lit ''foo'')) = Inr (r, effects)
      \<and> exactly_one_variant sample_runtime r)\<close>
proof -
  have h1: "pathname (search_request (lit ''foo'')) = lit ''/search''"
    by (rule sample_request_facts)
  have h2: "scalar_value_request (search_request (lit ''foo''))"
    by (rule sample_request_scalar) (simp add: lit_def is_lead_def is_trail_def)
  from h1 h2 search_response_variant [OF h1 h2] show ?thesis
    by blast
qed

text \<open>
  C7 as stated is about every request.  A request to another path gets the plain
  text \<open>Not Found\<close>, which is none of the three variants.
\<close>

theorem plain_not_found_no_variant:
  \<open>handler endpoint_index_ts sample_runtime (upstream_gives (Inr JNull)) other_request
     = Inr (\<lparr>status = 404, headers = [], body = lit ''Not Found''\<rparr>, []) \<and>
   \<not> success_variant sample_runtime \<lparr>status = 404, headers = [], body = lit ''Not Found''\<rparr> \<and>
   \<not> not_found_variant sample_runtime \<lparr>status = 404, headers = [], body = lit ''Not Found''\<rparr> \<and>
   \<not> error_variant sample_runtime \<lparr>status = 404, headers = [], body = lit ''Not Found''\<rparr>\<close>
proof -
  let ?r = "\<lparr>status = 404, headers = [], body = lit ''Not Found''\<rparr>"
  have run: "handler endpoint_index_ts sample_runtime (upstream_gives (Inr JNull)) other_request
     = Inr (?r, [])"
    by (simp add: handler_def other_request_def new_Response_def lit_def)
  have "\<not> (\<exists>rest. body ?r = 0x7B # rest)"
    by (simp add: lit_def)
  with variant_text_head [of sample_runtime ?r]
  have "\<not> (success_variant sample_runtime ?r \<or> not_found_variant sample_runtime ?r
           \<or> error_variant sample_runtime ?r)"
    by blast
  with run show ?thesis
    by blast
qed

section \<open>The header\<close>

text \<open>
  C9.  Only the 200 response names a \<open>Content-Type\<close> header,
  \<open>application/json\<close>.  Every other response is built without headers, although the
  bodies of the 400, 404 no-results and 500 responses are serialised JSON.
\<close>

theorem content_type_only_on_200:
  assumes "handler endpoint rt fetch req = Inr (r, effects)"
  shows "(status r = 200 \<or> status r = 400 \<or> status r = 404 \<or> status r = 500)
    \<and> headers r =
        (if status r = 200 then [(lit ''Content-Type'', lit ''application/json'')] else [])
    \<and> (status r = 400 \<or> status r = 500 \<or> status r = 404 \<and> pathname req = lit ''/search''
         \<longrightarrow> headers r = []
           \<and> (\<exists>message. body r = JSON_stringify rt (JObj [(lit ''error'', JStr message)])))"
proof -
  from handler_cases [OF assms]
  consider
    (plain) "pathname req \<noteq> lit ''/search''"
      "r = \<lparr>status = 404, headers = [], body = lit ''Not Found''\<rparr>"
  | (missing) \<open>r = \<lparr>status = 400, headers = [],
                body = lit ''{"error":"Please provide a search query."}''\<rparr>\<close>
  | (fault) \<open>r = \<lparr>status = 500, headers = [],
                body = lit ''{"error":"Sorry, an error occurred while fetching the search results."}''\<rparr>\<close>
  | (tried) query encoded where "try_block rt (fetch (endpoint @ encoded)) query = Inr r"
    by blast
  then show ?thesis
  proof cases
    case plain
    then show ?thesis by simp
  next
    case missing
    have "\<exists>message. body r = JSON_stringify rt (JObj [(lit ''error'', JStr message)])"
      using error_body_missing_query [of rt, symmetric]
      by (auto simp: missing error_body_def)
    with missing show ?thesis by simp
  next
    case fault
    have "\<exists>message. body r = JSON_stringify rt (JObj [(lit ''error'', JStr message)])"
      using error_body_fault [of rt, symmetric]
      by (auto simp: fault error_body_def)
    with fault show ?thesis by simp
  next
    case tried
    from try_block_cases [OF tried] show ?thesis
    proof
      assume "\<exists>title prompt user imageUrl.
            r = \<lparr>status = 200, headers = [(lit ''Content-Type'', lit ''application/json'')],
                  body = JSON_stringify_literal rt
                    [(lit ''title'', Some title), (lit ''prompt'', prompt),
                     (lit ''user'', user), (lit ''imageUrl'', imageUrl)]\<rparr>"
      then show ?thesis by auto
    next
      assume nf: "r = \<lparr>status = 404, headers = [], body = error_body rt (no_results_message query)\<rparr>"
      have "\<exists>message. body r = JSON_stringify rt (JObj [(lit ''error'', JStr message)])"
        by (auto simp: nf error_body_def)
      with nf show ?thesis by simp
    qed
  qed
qed

theorem content_type_only_on_200_witness:
  \<open>handler endpoint_index_ts_js sample_runtime (upstream_gives (Inr (page_of [])))
       (search_request (lit ''foo''))
     = Inr (\<lparr>status = 404, headers = [],
             body = lit ''{"error":"No results found for '' @ [0x5C, 0x22] @ lit ''foo''
                      @ [0x5C, 0x22] @ lit ''."}''\<rparr>,
            [Fetch (endpoint_index_ts_js @ lit ''foo'')]) \<and>
   headers \<lparr>status = 404, headers = [],
             body = lit ''{"error":"No results found for '' @ [0x5C, 0x22] @ lit ''foo''
                      @ [0x5C, 0x22] @ lit ''."}''\<rparr> = [] \<and>
   handler endpoint_index_ts_js sample_runtime (upstream_gives (Inr (page_of [sample_result])))
       (search_request (lit ''foo''))
     = Inr (\<lparr>status = 200, headers = [(lit ''Content-Type'', lit ''application/json'')],
             body = lit ''{"title":"T","prompt":"P","user":"U","imageUrl":"http://x"}''\<rparr>,
            [Fetch (endpoint_index_ts_js @ lit ''foo'')])\<close>
proof -
  let ?req = "search_request (lit ''foo'')"
  let ?r = \<open>\<lparr>status = 404, headers = [],
             body = lit ''{"error":"No results found for '' @ [0x5C, 0x22] @ lit ''foo''
                      @ [0x5C, 0x22] @ lit ''."}''\<rparr>\<close>
  have run: "handler endpoint_index_ts_js sample_runtime (upstream_gives (Inr (page_of []))) ?req
     = Inr (?r, [Fetch (endpoint_index_ts_js @ lit ''foo'')])"
    by (simp add: handler_eval string_eval)
  have ok: \<open>handler endpoint_index_ts_js sample_runtime
       (upstream_gives (Inr (page_of [sample_result]))) ?req
     = Inr (\<lparr>status = 200, headers = [(lit ''Content-Type'', lit ''application/json'')],
             body = lit ''{"title":"T","prompt":"P","user":"U","imageUrl":"http://x"}''\<rparr>,
            [Fetch (endpoint_index_ts_js @ lit ''foo'')])\<close>
    by (simp add: handler_eval sample_result_def string_eval)
  from content_type_only_on_200 [OF run] have "headers ?r = []"
    by simp
  with run ok show ?thesis
    by blast
qed

section \<open>Absent fields\<close>

text \<open>
  C10.  When the first result has no \<open>prompt\<close>, the body of the 200 response is the
  serialisation of the object without a \<open>prompt\<close> key: the key is left out, not given
  \<open>null\<close> or an empty value.  The same holds for \<open>url\<close> and the \<open>imageUrl\<close> key.
\<close>

theorem absent_fields_omitted:
  assumes "pathname req = lit ''/search''"
    and "searchParams_get (searchParams req) (lit ''q'') = Some query"
    and "query \<noteq> []"
    and "encodeURIComponent query = Inr encoded"
    and "fetch (endpoint @ encoded) = Inr responseData"
    and "own_prop responseData (lit ''pageProps'') = Some pageProps"
    and "own_prop pageProps (lit ''data'') = Some (JArr (firstResult # rest))"
    and "own_prop firstResult (lit ''user'') = Some user"
    and "user \<noteq> JNull"
  shows "\<exists>r title.
      handler endpoint rt fetch req = Inr (r, [Fetch (endpoint @ encoded)])
    \<and> status r = 200
    \<and> (own_prop firstResult (lit ''prompt'') = None \<longrightarrow>
         body r = JSON_stringify_literal rt
           [(lit ''title'', Some title),
            (lit ''user'', own_prop user (lit ''displayName'')),
            (lit ''imageUrl'', own_prop firstResult (lit ''url''))])
    \<and> (own_prop firstResult (lit ''url'') = None \<longrightarrow>
         body r = JSON_stringify_literal rt
           [(lit ''title'', Some title),
            (lit ''prompt'', own_prop firstResult (lit ''prompt'')),
            (lit ''user'', own_prop user (lit ''displayName''))])"
proof -
  obtain title where t: "js_or (own_prop firstResult (lit ''title'')) (Some (JStr (lit ''N/A''))) = Some title"
    using js_or_Some by blast
  let ?r = "\<lparr>status = 200, headers = [(lit ''Content-Type'', lit ''application/json'')],
            body = JSON_stringify_literal rt
              [(lit ''title'', Some title),
               (lit ''prompt'', own_prop firstResult (lit ''prompt'')),
               (lit ''user'', own_prop user (lit ''displayName'')),
               (lit ''imageUrl'', own_prop firstResult (lit ''url''))]\<rparr>"
  have run: "handler endpoint rt fetch req = Inr (?r, [Fetch (endpoint @ encoded)])"
    by (simp add: handler_search [OF assms(1-4)] assms(5)
        try_block_shaped [OF assms(6-9)] t)
  have "own_prop firstResult (lit ''prompt'') = None \<longrightarrow>
         body ?r = JSON_stringify_literal rt
           [(lit ''title'', Some title),
            (lit ''user'', own_prop user (lit ''displayName'')),
            (lit ''imageUrl'', own_prop firstResult (lit ''url''))]"
    by (simp add: JSON_stringify_literal_def)
  moreover have "own_prop firstResult (lit ''url'') = None \<longrightarrow>
         body ?r = JSON_stringify_literal rt
           [(lit ''title'', Some title),
            (lit ''prompt'', own_prop firstResult (lit ''prompt'')),
            (lit ''user'', own_prop user (lit ''displayName''))]"
    by (cases "own_prop firstResult (lit ''prompt'')"; cases "own_prop user (lit ''displayName'')")
      (simp_all add: JSON_stringify_literal_def)
  moreover have "status ?r = 200"
    by simp
  ultimately show ?thesis
    using run by - (rule exI [of _ ?r], rule exI [of _ title], simp)
qed

theorem absent_fields_omitted_witness:
  \<open>own_prop result_without_prompt (lit ''prompt'') = None \<and>
   own_prop result_without_prompt (lit ''user'') = Some (JObj [(lit ''displayName'', JStr (lit ''U''))]) \<and>
   handler endpoint_index_ts sample_runtime
       (upstream_gives (Inr (page_of [result_without_prompt]))) (search_request (lit ''foo''))
     = Inr (\<lparr>status = 200, headers = [(lit ''Content-Type'', lit ''application/json'')],
             body = lit ''{"title":"T","user":"U","imageUrl":"http://x"}''\<rparr>,
            [Fetch (endpoint_index_ts @ lit ''foo'')]) \<and>
   own_prop result_without_url (lit ''url'') = None \<and>
   handler endpoint_index_ts sample_runtime
       (upstream_gives (Inr (page_of [result_without_url]))) (search_request (lit ''foo''))
     = Inr (\<lparr>status = 200, headers = [(lit ''Content-Type'', lit ''application/json'')],
             body = lit ''{"title":"T","prompt":"P","user":"U"}''\<rparr>,
            [Fetch (endpoint_index_ts @ lit ''foo'')])\<close>
proof -
  let ?req = "search_request (lit ''foo'')"
  let ?user = "JObj [(lit ''displayName'', JStr (lit ''U''))]"
  let ?fetch = "upstream_gives (Inr (page_of [result_without_prompt]))"
  let ?page = "JObj [(lit ''data'', JArr [result_without_prompt])]"
  have h1: "pathname ?req = lit ''/search''"
    and h2: "searchParams_get (searchParams ?req) (lit ''q'') = Some (lit ''foo'')"
    by (rule sample_request_facts)+
  have h3: "lit ''foo'' \<noteq> []"
    by (simp add: lit_def)
  have h4: "encodeURIComponent (lit ''foo'') = Inr (lit ''foo'')"
    by (simp add: string_eval)
  have h5: "?fetch (endpoint_index_ts @ lit ''foo'') = Inr (page_of [result_without_prompt])"
    by (simp add: upstream_gives_def)
  have h6: "own_prop (page_of [result_without_prompt]) (lit ''pageProps'') = Some ?page"
    by (simp add: page_of_def)
  have h7: "own_prop ?page (lit ''data'') = Some (JArr (result_without_prompt # []))"
    by simp
  have h8: "own_prop result_without_prompt (lit ''user'') = Some ?user"
    by (simp add: result_without_prompt_def lit_def)
  have h9: "?user \<noteq> JNull"
    by simp
  have absent: "own_prop result_without_prompt (lit ''prompt'') = None"
    by (simp add: result_without_prompt_def lit_def)
  have absent': "own_prop result_without_url (lit ''url'') = None"
    by (simp add: result_without_url_def lit_def)
  from absent_fields_omitted [where fetch = ?fetch and endpoint = endpoint_index_ts
      and rt = sample_runtime, OF h1 h2 h3 h4 h5 h6 h7 h8 h9] absent
  obtain r title where
    run: "handler endpoint_index_ts sample_runtime ?fetch ?req
            = Inr (r, [Fetch (endpoint_index_ts @ lit ''foo'')])"
    and "status r = 200"
    and "body r = JSON_stringify_literal sample_runtime
           [(lit ''title'', Some title),
            (lit ''user'', own_prop ?user (lit ''displayName'')),
            (lit ''imageUrl'', own_prop result_without_prompt (lit ''url''))]"
    by blast
  have eval: \<open>handler endpoint_index_ts sample_runtime ?fetch ?req
     = Inr (\<lparr>status = 200, headers = [(lit ''Content-Type'', lit ''application/json'')],
             body = lit ''{"title":"T","user":"U","imageUrl":"http://x"}''\<rparr>,
            [Fetch (endpoint_index_ts @ lit ''foo'')])\<close>
    by (simp add: handler_eval result_without_prompt_def string_eval)
  have eval': \<open>handler endpoint_index_ts sample_runtime
       (upstream_gives (Inr (page_of [result_without_url]))) ?req
     = Inr (\<lparr>status = 200, headers = [(lit ''Content-Type'', lit ''application/json'')],
             body = lit ''{"title":"T","prompt":"P","user":"U"}''\<rparr>,
            [Fetch (endpoint_index_ts @ lit ''foo'')])\<close>
    by (simp add: handler_eval result_without_url_def string_eval)
  from run absent h8 eval absent' eval' show ?thesis
    by blast
qed

end
